theory Spec2Isabelle
  imports Complex_Main "HOL-Library.Word" "HOL-Library.Sublist"
begin

section \<open>Python text primitives\<close>

text \<open>
  A Python \<open>str\<close> is modelled as a \<open>string\<close>; each \<open>char\<close> stands for the code
  point of the same number, so the model covers text whose code points are below 256.
  The character classes below are those of Python's \<open>str\<close> methods on that range.
\<close>

definition ord :: "char \<Rightarrow> nat" where
  "ord c = of_char c"

definition isspace :: "char \<Rightarrow> bool" where
  \<comment> \<open>\<open>str.isspace\<close>, also the set \<open>str.strip()\<close> removes: TAB..CR, FS..US, space, NEL, NBSP\<close>
  "isspace c \<longleftrightarrow>
     (let n = ord c in (9 \<le> n \<and> n \<le> 13) \<or> (28 \<le> n \<and> n \<le> 32) \<or> n = 133 \<or> n = 160)"

definition isalpha :: "char \<Rightarrow> bool" where
  \<comment> \<open>\<open>str.isalpha\<close>: the letters (categories L*) below 256\<close>
  "isalpha c \<longleftrightarrow>
     (let n = ord c in (65 \<le> n \<and> n \<le> 90) \<or> (97 \<le> n \<and> n \<le> 122) \<or> n = 170 \<or> n = 181
        \<or> n = 186 \<or> (192 \<le> n \<and> n \<le> 214) \<or> (216 \<le> n \<and> n \<le> 246) \<or> (248 \<le> n \<and> n \<le> 255))"

definition isdigit :: "char \<Rightarrow> bool" where
  \<comment> \<open>\<open>str.isdigit\<close>: 0..9 and the superscripts two, three, one\<close>
  "isdigit c \<longleftrightarrow>
     (let n = ord c in (48 \<le> n \<and> n \<le> 57) \<or> n = 178 \<or> n = 179 \<or> n = 185)"

definition lower_char :: "char \<Rightarrow> char" where
  "lower_char c =
     (let n = ord c in
      if (65 \<le> n \<and> n \<le> 90) \<or> (192 \<le> n \<and> n \<le> 222 \<and> n \<noteq> 215) then char_of (n + 32) else c)"

definition lower :: "string \<Rightarrow> string" where
  "lower s = map lower_char s"

definition lstrip :: "string \<Rightarrow> string" where
  "lstrip s = dropWhile isspace s"

definition rstrip :: "string \<Rightarrow> string" where
  "rstrip s = rev (dropWhile isspace (rev s))"

definition strip :: "string \<Rightarrow> string" where
  "strip s = rstrip (lstrip s)"

definition lstrip_chars :: "string \<Rightarrow> string \<Rightarrow> string" where
  \<comment> \<open>\<open>s.lstrip(chars)\<close>\<close>
  "lstrip_chars chars s = dropWhile (\<lambda>c. c \<in> set chars) s"

definition rstrip_chars :: "string \<Rightarrow> string \<Rightarrow> string" where
  \<comment> \<open>\<open>s.rstrip(chars)\<close>\<close>
  "rstrip_chars chars s = rev (dropWhile (\<lambda>c. c \<in> set chars) (rev s))"

definition startswith :: "string \<Rightarrow> string \<Rightarrow> bool" where
  "startswith s p \<longleftrightarrow> take (length p) s = p"

fun contains :: "string \<Rightarrow> string \<Rightarrow> bool" where
  \<comment> \<open>\<open>sub in s\<close>\<close>
  "contains [] sub = (sub = [])"
| "contains (c # cs) sub = (take (length sub) (c # cs) = sub \<or> contains cs sub)"

definition is_linebreak :: "char \<Rightarrow> bool" where
  \<comment> \<open>the line boundaries of \<open>str.splitlines\<close>: LF, VT, FF, CR, FS, GS, RS, NEL\<close>
  "is_linebreak c \<longleftrightarrow>
     (let n = ord c in (10 \<le> n \<and> n \<le> 13) \<or> (28 \<le> n \<and> n \<le> 30) \<or> n = 133)"

fun splitlines_from :: "string \<Rightarrow> string \<Rightarrow> string list" where
  \<comment> \<open>\<open>cur\<close> is the line read so far; CR LF counts as one boundary\<close>
  "splitlines_from cur [] = (if cur = [] then [] else [cur])"
| "splitlines_from cur (c # cs) =
     (if is_linebreak c then
        (if c = CHR 0x0D \<and> cs \<noteq> [] \<and> hd cs = CHR 0x0A
         then cur # splitlines_from [] (tl cs)
         else cur # splitlines_from [] cs)
      else splitlines_from (cur @ [c]) cs)"

definition splitlines :: "string \<Rightarrow> string list" where
  "splitlines s = splitlines_from [] s"

function str_digits :: "int \<Rightarrow> string" where
  \<comment> \<open>the decimal digits of a non-negative int\<close>
  "str_digits n =
     (if n < 10 then [char_of (48 + n)] else str_digits (n div 10) @ [char_of (48 + n mod 10)])"
  by pat_completeness auto
termination
  by (relation "measure nat") auto

declare str_digits.simps [simp del]

definition str_int :: "int \<Rightarrow> string" where
  \<comment> \<open>\<open>str(n)\<close> of an int\<close>
  "str_int i = (if i < 0 then CHR ''-'' # str_digits (- i) else str_digits i)"

section \<open>Exceptions\<close>

text \<open>
  The exception classes the code raises or handles. \<open>FileNotFoundError\<close> is a subclass
  of \<open>OSError\<close> and \<open>UnicodeDecodeError\<close> one of \<open>ValueError\<close>; every class here derives
  from \<open>Exception\<close>. A computation that may raise returns \<open>py_exception + 'a\<close>.
\<close>

datatype py_exception =
    RuntimeError string
  | ValueError
  | UnicodeDecodeError
  | LookupError
  | OverflowError
  | OSError string
  | FileNotFoundError
  | TimeoutExpired
  | AsyncTimeoutError

fun is_OSError :: "py_exception \<Rightarrow> bool" where
  "is_OSError (OSError m) = True"
| "is_OSError FileNotFoundError = True"
| "is_OSError e = False"

section \<open>Size formatting\<close>

text \<open>
  \<open>float(size)\<close> rounds to 53 significant bits, ties to even, and raises
  \<open>OverflowError\<close> beyond the double range. Dividing a double of this size by 1024.0 is
  exact, so the loop's \<open>value\<close> is the rational number below.
\<close>

function bit_length :: "int \<Rightarrow> nat" where
  \<comment> \<open>\<open>n.bit_length()\<close> of a non-negative int\<close>
  "bit_length n = (if n \<le> 0 then 0 else Suc (bit_length (n div 2)))"
  by pat_completeness auto
termination
  by (relation "measure nat") auto

declare bit_length.simps [simp del]

definition float_of_int :: "int \<Rightarrow> py_exception + rat" where
  \<comment> \<open>\<open>float(n)\<close> for \<open>n \<ge> 0\<close>\<close>
  "float_of_int n =
     (if n < 2 ^ 53 then Inr (of_int n)
      else
        let e = bit_length n - 53;
            q = n div 2 ^ e;
            r = n mod 2 ^ e;
            h = 2 ^ (e - 1);
            q' = (if r > h \<or> (r = h \<and> odd q) then q + 1 else q);
            v = q' * 2 ^ e
        in if v \<ge> 2 ^ 1024 then Inl OverflowError else Inr (of_int v))"

definition fmt_1f :: "rat \<Rightarrow> string" where
  \<comment> \<open>\<open>f"{v:.1f}"\<close>: one decimal, the exact value rounded half to even\<close>
  "fmt_1f v =
     (let a = \<bar>v\<bar> * 10;
          f = \<lfloor>a\<rfloor>;
          d = a - of_int f;
          r = (if d > 1 / 2 \<or> (d = 1 / 2 \<and> odd f) then f + 1 else f)
      in (if v < 0 then ''-'' else '''') @ str_int (r div 10) @ ''.'' @ str_int (r mod 10))"

fun human_size_loop :: "rat \<Rightarrow> string list \<Rightarrow> string" where
  "human_size_loop v [] = fmt_1f v @ '' PB''"
| "human_size_loop v (unit # units) =
     (if v < 1024 then
        (if unit = ''B'' then str_int \<lfloor>v\<rfloor> @ '' '' @ unit
         else fmt_1f v @ '' '' @ unit)
      else human_size_loop (v / 1024) units)"

definition human_size :: "int \<Rightarrow> py_exception + string" where
  "human_size sz =
     (if sz < 0 then Inr ''unknown''
      else case float_of_int sz of
             Inl e \<Rightarrow> Inl e
           | Inr v \<Rightarrow> Inr (human_size_loop v [''B'', ''KB'', ''MB'', ''GB'', ''TB'']))"

section \<open>Search results\<close>

record SearchResult =
  path :: string
  name :: string
  is_dir :: bool
  size_bytes :: int
  date_modified :: string
  date_created :: string
  extension :: string

definition new_SearchResult :: "string \<Rightarrow> string \<Rightarrow> SearchResult" where
  \<comment> \<open>\<open>SearchResult(path=p, name=n)\<close> with the dataclass defaults\<close>
  "new_SearchResult p n =
     \<lparr>path = p, name = n, is_dir = False, size_bytes = - 1, date_modified = '''',
      date_created = '''', extension = ''''\<rparr>"

datatype pyval = StrV string | IntV int

type_synonym pydict = "(string \<times> pyval) list"

definition dict_set :: "pydict \<Rightarrow> string \<Rightarrow> pyval \<Rightarrow> pydict" where
  \<comment> \<open>\<open>d[k] = v\<close>: a new key goes last, an old one keeps its place\<close>
  "dict_set d k v = (if k \<in> fst ` set d then map (\<lambda>(k', v'). if k' = k then (k', v) else (k', v')) d
                     else d @ [(k, v)])"

definition to_dict :: "SearchResult \<Rightarrow> py_exception + pydict" where
  "to_dict r =
     (let d = [(''path'', StrV (path r)), (''name'', StrV (name r)),
               (''type'', StrV (if is_dir r then ''folder'' else ''file''))]
      in case (if \<not> is_dir r \<and> size_bytes r \<ge> 0
               then (case human_size (size_bytes r) of
                       Inl e \<Rightarrow> Inl e
                     | Inr h \<Rightarrow> Inr (dict_set (dict_set d ''size'' (IntV (size_bytes r)))
                                         ''size_human'' (StrV h)))
               else Inr d) of
           Inl e \<Rightarrow> Inl e
         | Inr d1 \<Rightarrow>
             let d2 = (if extension r \<noteq> [] then dict_set d1 ''extension'' (StrV (extension r)) else d1);
                 d3 = (if date_modified r \<noteq> [] then dict_set d2 ''date_modified'' (StrV (date_modified r)) else d2);
                 d4 = (if date_created r \<noteq> [] then dict_set d3 ''date_created'' (StrV (date_created r)) else d3)
             in Inr d4)"

section \<open>The environment\<close>

text \<open>
  What the standard library and the operating system answer is not decided by the program:
  it is a parameter of the model. The lexical operations of \<open>pathlib\<close> are total functions
  on text; file-system calls, the clock, the codecs and the child processes may raise.
\<close>

type_synonym bytes = "8 word list"

record stat_result =
  st_size :: int
  st_mtime :: rat
  st_ctime :: rat

record completed_process =
  returncode :: int
  proc_stdout :: string
  proc_stderr :: string

record os_env =
  path_str :: "string \<Rightarrow> string"  \<comment> \<open>\<open>str(Path(s))\<close>\<close>
  path_name :: "string \<Rightarrow> string"  \<comment> \<open>\<open>Path(s).name\<close>\<close>
  path_suffix :: "string \<Rightarrow> string"  \<comment> \<open>\<open>Path(s).suffix\<close>\<close>
  path_join :: "string \<Rightarrow> string \<Rightarrow> string"  \<comment> \<open>\<open>str(Path(s) / t)\<close>\<close>
  path_is_dir :: "string \<Rightarrow> py_exception + bool"  \<comment> \<open>\<open>Path(s).is_dir()\<close>\<close>
  path_is_file :: "string \<Rightarrow> py_exception + bool"  \<comment> \<open>\<open>Path(s).is_file()\<close>\<close>
  path_stat :: "string \<Rightarrow> py_exception + stat_result"  \<comment> \<open>\<open>Path(s).stat()\<close>\<close>
  format_timestamp :: "rat \<Rightarrow> py_exception + string"
    \<comment> \<open>\<open>datetime.fromtimestamp(t).strftime("%Y-%m-%d %H:%M:%S")\<close>\<close>
  utf8_decode :: "bytes \<Rightarrow> py_exception + string"  \<comment> \<open>\<open>data.decode("utf-8")\<close>\<close>
  utf8_replace :: "bytes \<Rightarrow> string"  \<comment> \<open>\<open>data.decode("utf-8", errors="replace")\<close>\<close>
  locale_decode :: "bytes \<Rightarrow> py_exception + string"
    \<comment> \<open>\<open>data.decode(locale.getpreferredencoding(False))\<close>\<close>
  int_max_str_digits :: nat  \<comment> \<open>\<open>sys.get_int_max_str_digits()\<close>, 0 for no limit\<close>
  spawn :: "string list \<Rightarrow> int \<Rightarrow> py_exception + (bytes \<times> bytes \<times> int option)"
    \<comment> \<open>\<open>create_subprocess_exec\<close> and \<open>wait_for(communicate(), timeout)\<close>:
        stdout, stderr and \<open>process.returncode\<close>\<close>
  subprocess_run :: "string list \<Rightarrow> int \<Rightarrow> py_exception + completed_process"
    \<comment> \<open>\<open>subprocess.run(argv, capture_output=True, text=True, timeout=t)\<close>\<close>
  environ :: "string \<Rightarrow> string option"  \<comment> \<open>\<open>os.environ\<close>\<close>
  which :: "string \<Rightarrow> string option"  \<comment> \<open>\<open>shutil.which\<close>\<close>
  ES_SEARCH_PATHS :: "string list"  \<comment> \<open>the list, its variables expanded\<close>
  platform_win32 :: bool  \<comment> \<open>\<open>sys.platform == "win32"\<close>\<close>
  winreg_importable :: bool
  reg_install_path :: "string \<Rightarrow> string \<Rightarrow> py_exception + string"
    \<comment> \<open>\<open>OpenKey(hive, subkey)\<close> and \<open>QueryValueEx(key, "InstallPath")\<close>\<close>

definition str_or :: "string \<Rightarrow> string \<Rightarrow> string" where
  \<comment> \<open>\<open>a or b\<close> on strings\<close>
  "str_or a b = (if a \<noteq> [] then a else b)"

section \<open>Configuration\<close>

record EverythingConfig =
  es_path :: string
  instance_id :: string  \<comment> \<open>the field \<open>instance\<close>\<close>
  timeout :: int
  max_results_cap :: int
  errors :: "string list"
  warnings :: "string list"
  version_info :: string

definition new_EverythingConfig :: EverythingConfig where
  "new_EverythingConfig =
     \<lparr>es_path = [], instance_id = [], timeout = 30, max_results_cap = 1000, errors = [],
      warnings = [], version_info = []\<rparr>"

definition is_valid :: "EverythingConfig \<Rightarrow> bool" where
  "is_valid config \<longleftrightarrow> es_path config \<noteq> [] \<and> length (errors config) = 0"

section \<open>Parsing and enrichment\<close>

definition backslash :: char where
  "backslash = CHR 0x5C"

definition looks_like_path :: "string \<Rightarrow> bool" where
  "looks_like_path s \<longleftrightarrow>
     (if length s \<ge> 3 \<and> isalpha (s ! 0) \<and> s ! 1 = CHR '':'' \<and> (s ! 2 = CHR ''/'' \<or> s ! 2 = backslash)
      then True
      else if startswith s [backslash, backslash] then True
      else startswith s ''/'')"

definition stat_fields :: "os_env \<Rightarrow> string \<Rightarrow> bool \<Rightarrow> py_exception + (int \<times> string \<times> string)" where
  \<comment> \<open>the inner \<open>try\<close>: \<open>size\<close>, \<open>dm\<close>, \<open>dc\<close> as they stand when it is left;
      \<open>except OSError: pass\<close>\<close>
  "stat_fields env filepath isd =
     (case path_stat env filepath of
        Inl e \<Rightarrow> if is_OSError e then Inr (- 1, [], []) else Inl e
      | Inr st \<Rightarrow>
          let sz = (if \<not> isd then st_size st else - 1) in
          case format_timestamp env (st_mtime st) of
            Inl e \<Rightarrow> if is_OSError e then Inr (sz, [], []) else Inl e
          | Inr dm \<Rightarrow>
              (case format_timestamp env (st_ctime st) of
                 Inl e \<Rightarrow> if is_OSError e then Inr (sz, dm, []) else Inl e
               | Inr dc \<Rightarrow> Inr (sz, dm, dc)))"

definition stat_to_result_try :: "os_env \<Rightarrow> string \<Rightarrow> py_exception + SearchResult" where
  \<comment> \<open>the body of the outer \<open>try\<close>\<close>
  "stat_to_result_try env filepath =
     (let nm = str_or (path_name env filepath) filepath in
      case path_is_dir env filepath of
        Inl e \<Rightarrow> Inl e
      | Inr isd \<Rightarrow>
          let ext = (if \<not> isd then lower (lstrip_chars ''.'' (path_suffix env filepath)) else []) in
          case stat_fields env filepath isd of
            Inl e \<Rightarrow> Inl e
          | Inr (sz, dm, dc) \<Rightarrow>
              Inr \<lparr>path = path_str env filepath, name = nm, is_dir = isd, size_bytes = sz,
                   date_modified = dm, date_created = dc, extension = ext\<rparr>)"

definition stat_to_result :: "os_env \<Rightarrow> string \<Rightarrow> py_exception + SearchResult option" where
  \<comment> \<open>\<open>_stat_to_result\<close>, declared \<open>SearchResult | None\<close>; \<open>except Exception\<close> takes
      every exception of the body\<close>
  "stat_to_result env filepath =
     (case stat_to_result_try env filepath of
        Inr r \<Rightarrow> Inr (Some r)
      | Inl exc \<Rightarrow> Inr (Some (new_SearchResult filepath (str_or (path_name env filepath) filepath))))"

fun parse_lines :: "os_env \<Rightarrow> string list \<Rightarrow> SearchResult list \<Rightarrow> py_exception + SearchResult list" where
  \<comment> \<open>the loop of \<open>_parse_paths_and_stat\<close> over the remaining lines\<close>
  "parse_lines env [] results = Inr results"
| "parse_lines env (raw_line # rest) results =
     (let filepath = rstrip_chars [CHR 0x0D, CHR 0x0A] raw_line in
      if strip filepath = [] then parse_lines env rest results
      else if \<not> looks_like_path filepath then parse_lines env rest results
      else case stat_to_result env filepath of
             Inl e \<Rightarrow> Inl e
           | Inr None \<Rightarrow> parse_lines env rest results
           | Inr (Some r) \<Rightarrow> parse_lines env rest (results @ [r]))"

definition parse_paths_and_stat :: "os_env \<Rightarrow> string \<Rightarrow> py_exception + SearchResult list" where
  "parse_paths_and_stat env out = parse_lines env (splitlines out) []"

section \<open>Decoding and integer parsing\<close>

definition decode_output :: "os_env \<Rightarrow> bytes \<Rightarrow> py_exception + string" where
  "decode_output env data =
     (if take 3 data = [0xEF, 0xBB, 0xBF] then Inr (utf8_replace env (drop 3 data))
      else case utf8_decode env data of
             Inr s \<Rightarrow> Inr s
           | Inl e \<Rightarrow>
               if e = UnicodeDecodeError then
                 (case locale_decode env data of
                    Inr s \<Rightarrow> Inr s
                  | Inl e' \<Rightarrow>
                      if e' = UnicodeDecodeError \<or> e' = LookupError
                      then Inr (utf8_replace env data) else Inl e')
               else Inl e)"

definition int_space :: "char \<Rightarrow> bool" where
  \<comment> \<open>the white space \<open>int()\<close> skips around the number: not FS..US\<close>
  "int_space c \<longleftrightarrow> isspace c \<and> \<not> (28 \<le> ord c \<and> ord c \<le> 31)"

definition ascii_digit :: "char \<Rightarrow> bool" where
  "ascii_digit c \<longleftrightarrow> 48 \<le> ord c \<and> ord c \<le> 57"

fun digits_value :: "string \<Rightarrow> bool \<Rightarrow> int \<Rightarrow> int option" where
  \<comment> \<open>digits, single underscores between them; \<open>prev\<close>: the last character was a digit\<close>
  "digits_value [] prev acc = (if prev then Some acc else None)"
| "digits_value (c # cs) prev acc =
     (if ascii_digit c then digits_value cs True (acc * 10 + (int (ord c) - 48))
      else if c = CHR ''_'' \<and> prev then digits_value cs False acc
      else None)"

definition py_int :: "nat \<Rightarrow> string \<Rightarrow> py_exception + int" where
  \<comment> \<open>\<open>int(s)\<close> of a \<open>str\<close>, with the limit on the number of digits\<close>
  "py_int max_digits s =
     (let t = rev (dropWhile int_space (rev (dropWhile int_space s)));
          neg = (t \<noteq> [] \<and> hd t = CHR ''-'');
          body = (if t \<noteq> [] \<and> (hd t = CHR ''-'' \<or> hd t = CHR ''+'') then tl t else t)
      in if max_digits > 0 \<and> length (filter ascii_digit body) > max_digits then Inl ValueError
         else case digits_value body False 0 of
                None \<Rightarrow> Inl ValueError
              | Some n \<Rightarrow> Inr (if neg then - n else n))"

fun is_ValueError :: "py_exception \<Rightarrow> bool" where
  "is_ValueError ValueError = True"
| "is_ValueError UnicodeDecodeError = True"
| "is_ValueError e = False"

section \<open>Query execution\<close>

definition SORT_MAP :: "(string \<times> string) list" where
  "SORT_MAP =
     [(''name'', ''name''),
      (''name-desc'', ''name-descending''),
      (''path'', ''path''),
      (''path-desc'', ''path-descending''),
      (''size'', ''size''),
      (''size-asc'', ''size''),
      (''size-desc'', ''size-descending''),
      (''date-modified'', ''date-modified''),
      (''date-modified-asc'', ''date-modified''),
      (''date-modified-desc'', ''date-modified-descending''),
      (''date-created'', ''date-created''),
      (''date-created-asc'', ''date-created''),
      (''date-created-desc'', ''date-created-descending''),
      (''extension'', ''extension'')]"

definition base_cmd :: "EverythingConfig \<Rightarrow> string list" where
  "base_cmd config =
     [es_path config] @ (if instance_id config \<noteq> [] then [''-instance'', instance_id config] else [])"

definition run_except :: "EverythingConfig \<Rightarrow> py_exception \<Rightarrow> py_exception" where
  \<comment> \<open>the handlers of \<open>_run\<close>: what leaves it when its body raises \<open>e\<close>\<close>
  "run_except config e =
     (if e = AsyncTimeoutError then
        RuntimeError (''Search timed out after '' @ str_int (timeout config) @ ''s. ''
                      @ ''Try a more specific query or increase timeout.'')
      else if e = FileNotFoundError then
        RuntimeError (''es.exe not found at: '' @ es_path config @ ''. ''
                      @ ''Verify Everything is installed.'')
      else e)"

definition run :: "os_env \<Rightarrow> EverythingConfig \<Rightarrow> string list \<Rightarrow> py_exception + (string \<times> string \<times> int)" where
  "run env config cmd =
     (case (case spawn env cmd (timeout config) of
              Inl e \<Rightarrow> Inl e
            | Inr (stdout_raw, stderr_raw, rc) \<Rightarrow>
                (case decode_output env stdout_raw of
                   Inl e \<Rightarrow> Inl e
                 | Inr out \<Rightarrow>
                     (case decode_output env stderr_raw of
                        Inl e \<Rightarrow> Inl e
                      | Inr err \<Rightarrow> Inr (out, err, (case rc of None \<Rightarrow> 0 | Some n \<Rightarrow> n))))) of
        Inl e \<Rightarrow> Inl (run_except config e)
      | Inr res \<Rightarrow> Inr res)"

definition search ::
  "os_env \<Rightarrow> EverythingConfig \<Rightarrow> string \<Rightarrow> int \<Rightarrow> string \<Rightarrow> bool \<Rightarrow> bool \<Rightarrow> bool \<Rightarrow> bool \<Rightarrow> int
     \<Rightarrow> py_exception + SearchResult list" where
  "search env config query max_results sort_name match_case match_whole_word match_regex match_path offset =
     (let cmd = base_cmd config
            @ [''-n'', str_int (min max_results (max_results_cap config))]
            @ (if offset > 0 then [''-o'', str_int offset] else [])
            @ [''-sort'', (case map_of SORT_MAP sort_name of Some v \<Rightarrow> v | None \<Rightarrow> sort_name)]
            @ (if match_case then [''-case''] else [])
            @ (if match_whole_word then [''-w''] else [])
            @ (if match_regex then [''-r''] else [])
            @ (if match_path then [''-p''] else [])
            @ [query]
      in case run env config cmd of
           Inl e \<Rightarrow> Inl e
         | Inr (out, err, rc) \<Rightarrow>
             if rc \<noteq> 0 then
               Inl (RuntimeError (''Everything search failed: ''
                     @ str_or (strip err) (str_or (strip out) (''es.exe exited with code '' @ str_int rc))))
             else parse_paths_and_stat env out)"

definition parse_count :: "os_env \<Rightarrow> string \<Rightarrow> py_exception + int" where
  \<comment> \<open>\<open>try: return int(stdout.strip())\<close> \<open>except ValueError: return -1\<close>\<close>
  "parse_count env out =
     (case py_int (int_max_str_digits env) (strip out) of
        Inr n \<Rightarrow> Inr n
      | Inl e \<Rightarrow> if is_ValueError e then Inr (- 1) else Inl e)"

definition count :: "os_env \<Rightarrow> EverythingConfig \<Rightarrow> string \<Rightarrow> py_exception + int" where
  "count env config query =
     (case run env config (base_cmd config @ [''-get-result-count'', query]) of
        Inl e \<Rightarrow> Inl e
      | Inr (out, err, rc) \<Rightarrow>
          if rc \<noteq> 0 then Inl (RuntimeError (''Count failed: '' @ str_or (strip err) (strip out)))
          else parse_count env out)"

definition get_total_size :: "os_env \<Rightarrow> EverythingConfig \<Rightarrow> string \<Rightarrow> py_exception + int" where
  "get_total_size env config query =
     (case run env config (base_cmd config @ [''-get-total-size'', query]) of
        Inl e \<Rightarrow> Inl e
      | Inr (out, err, rc) \<Rightarrow>
          if rc \<noteq> 0 then Inl (RuntimeError (''Total size failed: '' @ str_or (strip err) (strip out)))
          else parse_count env out)"

section \<open>Discovery\<close>

definition probe_caught :: "py_exception \<Rightarrow> bool" where
  \<comment> \<open>\<open>except (subprocess.TimeoutExpired, FileNotFoundError, OSError)\<close>\<close>
  "probe_caught e \<longleftrightarrow> e = TimeoutExpired \<or> is_OSError e"

definition is_everything_es :: "os_env \<Rightarrow> string \<Rightarrow> py_exception + bool" where
  "is_everything_es env p =
     (case subprocess_run env [p, ''-get-everything-version''] 5 of
        Inr result \<Rightarrow>
          (let output = strip (proc_stdout result)
           in Inr (output \<noteq> [] \<and> list_ex isdigit output))
      | Inl e \<Rightarrow>
          if probe_caught e then
            (case subprocess_run env [p, ''-version''] 5 of
               Inr result \<Rightarrow> Inr (contains (lower (proc_stdout result)) ''everything'')
             | Inl e' \<Rightarrow> if probe_caught e' then Inr False else Inl e')
          else Inl e)"

definition detect_instance :: "os_env \<Rightarrow> string \<Rightarrow> py_exception + string" where
  "detect_instance env p =
     (let second =
            (case subprocess_run env [p, ''-instance'', ''1.5a'', ''-get-everything-version''] 5 of
               Inr result \<Rightarrow>
                 if returncode result = 0 \<and> strip (proc_stdout result) \<noteq> [] then Inr ''1.5a''
                 else Inr []
             | Inl e \<Rightarrow> if probe_caught e then Inr [] else Inl e)
      in case subprocess_run env [p, ''-get-everything-version''] 5 of
           Inr result \<Rightarrow>
             if returncode result = 0 \<and> strip (proc_stdout result) \<noteq> [] then Inr [] else second
         | Inl e \<Rightarrow> if probe_caught e then second else Inl e)"

definition test_connection :: "os_env \<Rightarrow> string \<Rightarrow> string \<Rightarrow> py_exception + (bool \<times> string)" where
  "test_connection env p inst =
     (let base = [p] @ (if inst \<noteq> [] then [''-instance'', inst] else []);
          second =
            (case subprocess_run env (base @ [''-n'', ''1'', ''*.txt'']) 10 of
               Inr result \<Rightarrow>
                 if returncode result = 0 then Inr (True, ''Everything connected (version unknown)'')
                 else Inr (False, str_or (strip (proc_stderr result))
                                    (str_or (strip (proc_stdout result)) ''Unknown error''))
             | Inl e \<Rightarrow>
                 (case e of
                    TimeoutExpired \<Rightarrow> Inr (False, ''Connection timed out'')
                  | FileNotFoundError \<Rightarrow> Inr (False, ''es.exe not found at '' @ p)
                  | OSError m \<Rightarrow> Inr (False, m)
                  | _ \<Rightarrow> Inl e))
      in case subprocess_run env (base @ [''-get-everything-version'']) 10 of
           Inr result \<Rightarrow>
             if returncode result = 0 \<and> strip (proc_stdout result) \<noteq> []
             then Inr (True, ''Everything v'' @ strip (proc_stdout result))
             else second
         | Inl e \<Rightarrow> if probe_caught e then second else Inl e)"

definition check_candidate :: "os_env \<Rightarrow> string \<Rightarrow> py_exception + string option" where
  \<comment> \<open>\<open>if candidate.is_file() and _is_everything_es(str(candidate)): return str(candidate)\<close>;
      \<open>c\<close> is \<open>str(candidate)\<close>, \<open>None\<close> is falling through\<close>
  "check_candidate env c =
     (case path_is_file env c of
        Inl e \<Rightarrow> Inl e
      | Inr isf \<Rightarrow>
          if isf then
            (case is_everything_es env c of
               Inl e \<Rightarrow> Inl e
             | Inr ok \<Rightarrow> Inr (if ok then Some c else None))
          else Inr None)"

definition find_in_override :: "os_env \<Rightarrow> string \<Rightarrow> py_exception + string option" where
  "find_in_override env env_override =
     (case path_is_file env env_override of
        Inl e \<Rightarrow> Inl e
      | Inr isf \<Rightarrow>
          if isf \<and> lower (path_name env env_override) = ''es.exe'' then
            (case is_everything_es env (path_str env env_override) of
               Inl e \<Rightarrow> Inl e
             | Inr ok \<Rightarrow> Inr (if ok then Some (path_str env env_override) else None))
          else
            (case path_is_dir env env_override of
               Inl e \<Rightarrow> Inl e
             | Inr isd \<Rightarrow>
                 if isd then check_candidate env (path_join env env_override ''es.exe'')
                 else Inr None))"

fun find_on_path :: "os_env \<Rightarrow> string list \<Rightarrow> py_exception + string option" where
  "find_on_path env [] = Inr None"
| "find_on_path env (nm # rest) =
     (case which env nm of
        None \<Rightarrow> find_on_path env rest
      | Some found \<Rightarrow>
          if found \<noteq> [] then
            (case is_everything_es env found of
               Inl e \<Rightarrow> Inl e
             | Inr ok \<Rightarrow> if ok then Inr (Some found) else find_on_path env rest)
          else find_on_path env rest)"

fun find_in_dirs :: "os_env \<Rightarrow> string list \<Rightarrow> py_exception + string option" where
  "find_in_dirs env [] = Inr None"
| "find_in_dirs env (search_dir # rest) =
     (case check_candidate env (path_join env search_dir ''es.exe'') of
        Inl e \<Rightarrow> if is_OSError e then find_in_dirs env rest else Inl e
      | Inr (Some c) \<Rightarrow> Inr (Some c)
      | Inr None \<Rightarrow> find_in_dirs env rest)"

definition registry_keys :: "(string \<times> string) list" where
  "registry_keys =
     (let k1 = ''SOFTWARE'' @ [backslash] @ ''voidtools'' @ [backslash] @ ''Everything'';
          k2 = ''SOFTWARE'' @ [backslash] @ ''WOW6432Node'' @ [backslash] @ ''voidtools''
               @ [backslash] @ ''Everything''
      in [(''HKEY_LOCAL_MACHINE'', k1), (''HKEY_LOCAL_MACHINE'', k2),
          (''HKEY_CURRENT_USER'', k1), (''HKEY_CURRENT_USER'', k2)])"

fun find_in_registry :: "os_env \<Rightarrow> (string \<times> string) list \<Rightarrow> py_exception + string" where
  "find_in_registry env [] = Inr []"
| "find_in_registry env ((hive, subkey) # rest) =
     (case reg_install_path env hive subkey of
        Inl e \<Rightarrow> if is_OSError e then find_in_registry env rest else Inl e
      | Inr install_path \<Rightarrow>
          (case check_candidate env (path_join env install_path ''es.exe'') of
             Inl e \<Rightarrow> if is_OSError e then find_in_registry env rest else Inl e
           | Inr (Some c) \<Rightarrow> Inr c
           | Inr None \<Rightarrow> find_in_registry env rest))"

definition find_via_registry :: "os_env \<Rightarrow> py_exception + string" where
  "find_via_registry env =
     (if \<not> platform_win32 env then Inr []
      else if \<not> winreg_importable env then Inr []
      else find_in_registry env registry_keys)"

definition find_es_exe :: "os_env \<Rightarrow> string \<Rightarrow> py_exception + string" where
  "find_es_exe env env_override =
     (case (if env_override \<noteq> [] then find_in_override env env_override else Inr None) of
        Inl e \<Rightarrow> Inl e
      | Inr (Some p) \<Rightarrow> Inr p
      | Inr None \<Rightarrow>
          (case find_on_path env [''es'', ''es.exe''] of
             Inl e \<Rightarrow> Inl e
           | Inr (Some p) \<Rightarrow> Inr p
           | Inr None \<Rightarrow>
               (case find_in_dirs env (ES_SEARCH_PATHS env) of
                  Inl e \<Rightarrow> Inl e
                | Inr (Some p) \<Rightarrow> Inr p
                | Inr None \<Rightarrow> find_via_registry env)))"

definition not_found_message :: string where
  "not_found_message =
     ''es.exe not found. Install from https://github.com/voidtools/es/releases ''
     @ ''or set the EVERYTHING_ES_PATH environment variable. ''
     @ ''Everything (https://www.voidtools.com/) must be installed and running.''"

definition cannot_connect_message :: "string \<Rightarrow> string" where
  "cannot_connect_message info =
     ''Cannot connect to Everything: '' @ info @ ''. ''
     @ ''Ensure Everything is running (check your system tray). ''
     @ ''If you use Everything 1.5 alpha, try EVERYTHING_INSTANCE=1.5a''"

definition environ_get :: "os_env \<Rightarrow> string \<Rightarrow> string \<Rightarrow> string" where
  \<comment> \<open>\<open>os.environ.get(key, default)\<close>\<close>
  "environ_get env k dflt = (case environ env k of None \<Rightarrow> dflt | Some v \<Rightarrow> v)"

definition auto_detect :: "os_env \<Rightarrow> py_exception + EverythingConfig" where
  "auto_detect env =
     (let config = new_EverythingConfig;
          env_path = strip (environ_get env ''EVERYTHING_ES_PATH'' []);
          env_instance = strip (environ_get env ''EVERYTHING_INSTANCE'' []);
          config1 = (if env_instance \<noteq> [] then config\<lparr>instance_id := env_instance\<rparr> else config)
      in case find_es_exe env env_path of
           Inl e \<Rightarrow> Inl e
         | Inr found \<Rightarrow>
             let config2 = config1\<lparr>es_path := found\<rparr> in
             if es_path config2 = [] then
               Inr (config2\<lparr>errors := errors config2 @ [not_found_message]\<rparr>)
             else
               (case (if instance_id config2 = [] then
                        (case detect_instance env (es_path config2) of
                           Inl e \<Rightarrow> Inl e
                         | Inr inst \<Rightarrow> Inr (config2\<lparr>instance_id := inst\<rparr>))
                      else Inr config2) of
                  Inl e \<Rightarrow> Inl e
                | Inr config3 \<Rightarrow>
                    (case test_connection env (es_path config3) (instance_id config3) of
                       Inl e \<Rightarrow> Inl e
                     | Inr (ok, info) \<Rightarrow>
                         if ok then Inr (config3\<lparr>version_info := info\<rparr>)
                         else Inr (config3\<lparr>errors := errors config3 @ [cannot_connect_message info]\<rparr>))))"

section \<open>The path shapes, as the specification words them\<close>

definition drive_letter_shape :: "string \<Rightarrow> bool" where
  \<comment> \<open>an alphabetic drive letter, a colon, then a slash or a backslash\<close>
  "drive_letter_shape s =
     (case s of
        d # c # sep # rest \<Rightarrow> isalpha d \<and> c = CHR '':'' \<and> (sep = CHR ''/'' \<or> sep = backslash)
      | _ \<Rightarrow> False)"

definition unc_shape :: "string \<Rightarrow> bool" where
  \<comment> \<open>a leading double backslash\<close>
  "unc_shape s = (case s of a # b # rest \<Rightarrow> a = backslash \<and> b = backslash | _ \<Rightarrow> False)"

definition leading_slash_shape :: "string \<Rightarrow> bool" where
  "leading_slash_shape s = (case s of a # rest \<Rightarrow> a = CHR ''/'' | _ \<Rightarrow> False)"

section \<open>Sample environments\<close>

text \<open>
  Concrete environments on which the model is run. \<open>sample_env\<close> is a machine without
  the tool: no file exists, no program is found, every child process fails to start. Its
  \<open>pathlib\<close> is the one of a POSIX machine on paths already in normal form, its codecs
  are those of an ASCII locale.
\<close>

definition ascii_text :: "bytes \<Rightarrow> string" where
  "ascii_text data = map (\<lambda>b. if b < 128 then char_of (unat b) else CHR ''?'') data"

definition sample_env :: os_env where
  "sample_env =
     \<lparr>path_str = (\<lambda>s. s),
      path_name = (\<lambda>s. rev (takeWhile (\<lambda>c. c \<noteq> CHR ''/'') (rev s))),
      path_suffix = (\<lambda>s. []),
      path_join = (\<lambda>s t. s @ ''/'' @ t),
      path_is_dir = (\<lambda>s. Inr False),
      path_is_file = (\<lambda>s. Inr False),
      path_stat = (\<lambda>s. Inl FileNotFoundError),
      format_timestamp = (\<lambda>t. Inr ''1970-01-01 00:00:00''),
      utf8_decode = (\<lambda>data. if list_all (\<lambda>b. b < 128) data then Inr (ascii_text data)
                             else Inl UnicodeDecodeError),
      utf8_replace = ascii_text,
      locale_decode = (\<lambda>data. if list_all (\<lambda>b. b < 128) data then Inr (ascii_text data)
                               else Inl UnicodeDecodeError),
      int_max_str_digits = 4300,
      spawn = (\<lambda>cmd t. Inl FileNotFoundError),
      subprocess_run = (\<lambda>argv t. Inl FileNotFoundError),
      environ = (\<lambda>k. None),
      which = (\<lambda>nm. None),
      ES_SEARCH_PATHS = [],
      platform_win32 = False,
      winreg_importable = False,
      reg_install_path = (\<lambda>hive subkey. Inl FileNotFoundError)\<rparr>"

definition sample_config :: EverythingConfig where
  "sample_config = new_EverythingConfig\<lparr>es_path := ''/opt/es.exe''\<rparr>"

definition silent_failure_env :: os_env where
  \<comment> \<open>the tool exits with code 1 and writes nothing\<close>
  "silent_failure_env = sample_env\<lparr>spawn := (\<lambda>cmd t. Inr ([], [], Some 1))\<rparr>"

definition garbled_count_env :: os_env where
  \<comment> \<open>the tool exits with code 0 and writes \<open>abc\<close> and a newline\<close>
  "garbled_count_env = sample_env\<lparr>spawn := (\<lambda>cmd t. Inr ([0x61, 0x62, 0x63, 0x0A], [], Some 0))\<rparr>"

definition bad_clock_env :: os_env where
  \<comment> \<open>every file is a regular file of 5 bytes dated before the epoch, and the platform's
      \<open>localtime\<close> rejects such a time: \<open>fromtimestamp\<close> raises \<open>OSError\<close>\<close>
  "bad_clock_env =
     sample_env\<lparr>path_stat := (\<lambda>s. Inr \<lparr>st_size = 5, st_mtime = - 1, st_ctime = - 1\<rparr>),
                format_timestamp := (\<lambda>t. Inl (OSError ''[Errno 22] Invalid argument''))\<rparr>"

definition undecodable_env :: os_env where
  \<comment> \<open>the program answers with bytes that are no text in the locale's encoding:
      \<open>subprocess.run(..., text=True)\<close> raises \<open>UnicodeDecodeError\<close>\<close>
  "undecodable_env = sample_env\<lparr>subprocess_run := (\<lambda>argv t. Inl UnicodeDecodeError)\<rparr>"

definition version_env :: os_env where
  \<comment> \<open>every program answers a version number\<close>
  "version_env =
     sample_env\<lparr>subprocess_run :=
       (\<lambda>argv t. Inr \<lparr>returncode = 0, proc_stdout = ''1.4.1.1024'' @ [CHR 0x0A], proc_stderr = []\<rparr>)\<rparr>"

definition engine_down_env :: os_env where
  \<comment> \<open>\<open>es\<close> is on the search path and names itself on \<open>-version\<close>, but the engine
      does not run: version queries time out, a listing exits with code 8\<close>
  "engine_down_env =
     sample_env\<lparr>which := (\<lambda>nm. if nm = ''es'' then Some ''/usr/bin/es'' else None),
                subprocess_run :=
       (\<lambda>argv t.
          if argv \<noteq> [] \<and> last argv = ''-version''
            then Inr \<lparr>returncode = 0, proc_stdout = ''ES for Everything'', proc_stderr = []\<rparr>
          else if argv \<noteq> [] \<and> last argv = ''*.txt''
            then Inr \<lparr>returncode = 8, proc_stdout = [], proc_stderr = ''Error 8''\<rparr>
          else Inl TimeoutExpired)\<rparr>"

section \<open>Size formatting and serialization\<close>

lemma human_size_negative: "n < 0 \<Longrightarrow> human_size n = Inr ''unknown''"
  by (simp add: human_size_def)

text \<open>
  C8: \<open>human_size\<close> maps 0 to "0 B", 1023 to "1023 B", 1024 to "1.0 KB", 1536 to "1.5 KB",
  1048576 to "1.0 MB", 1024 to the power 4 to "1.0 TB", and every negative integer to
  "unknown".
\<close>

theorem human_size_table:
  "human_size 0 = Inr ''0 B'' \<and> human_size 1023 = Inr ''1023 B''
   \<and> human_size 1024 = Inr ''1.0 KB'' \<and> human_size 1536 = Inr ''1.5 KB''
   \<and> human_size 1048576 = Inr ''1.0 MB'' \<and> human_size (1024 ^ 4) = Inr ''1.0 TB''
   \<and> (\<forall>n. n < 0 \<longrightarrow> human_size n = Inr ''unknown'')"
proof -
  have a: "human_size 0 = Inr ''0 B''" by code_simp
  have b: "human_size 1023 = Inr ''1023 B''" by code_simp
  have c: "human_size 1024 = Inr ''1.0 KB''" by code_simp
  have d: "human_size 1536 = Inr ''1.5 KB''" by code_simp
  have e: "human_size 1048576 = Inr ''1.0 MB''" by code_simp
  have f: "human_size (1024 ^ 4) = Inr ''1.0 TB''" by code_simp
  show ?thesis using a b c d e f human_size_negative by blast
qed

theorem human_size_table_witness:
  "(- 1 :: int) < 0 \<and> human_size (- 1) = Inr ''unknown'' \<and> human_size 1536 = Inr ''1.5 KB''"
  using human_size_table by simp

lemma dict_replace_keys:
  "map fst (map (\<lambda>(k', v'). if k' = k then (k', v) else (k', v')) d) = map fst d"
  by (induction d) auto

lemma dict_replace_other:
  "k' \<noteq> k \<Longrightarrow>
   (k', w) \<in> set (map (\<lambda>(k', v'). if k' = k then (k', v) else (k', v')) d) \<longleftrightarrow> (k', w) \<in> set d"
  by (induction d) (auto split: if_splits)

lemma dict_set_keys: "fst ` set (dict_set d k v) = insert k (fst ` set d)"
proof (cases "k \<in> fst ` set d")
  case True
  have "fst ` set (dict_set d k v) = set (map fst (dict_set d k v))" by simp
  also have "\<dots> = set (map fst d)"
    using True by (simp only: dict_set_def if_True dict_replace_keys)
  finally show ?thesis using True by auto
next
  case False
  then show ?thesis by (simp add: dict_set_def)
qed

lemma dict_set_other:
  "k' \<noteq> k \<Longrightarrow> (k', w) \<in> set (dict_set d k v) \<longleftrightarrow> (k', w) \<in> set d"
  by (cases "k \<in> fst ` set d") (simp_all add: dict_set_def dict_replace_other del: set_map)

lemma dict_set_fresh:
  "k \<notin> fst ` set d \<Longrightarrow> (k, w) \<in> set (dict_set d k v) \<longleftrightarrow> w = v"
  by (auto simp: dict_set_def image_iff)

text \<open>
  C10: for every SearchResult, \<open>to_dict\<close> includes the keys \<open>size\<close> and \<open>size_human\<close> only
  when the directory flag is false and the size is non-negative: a serialized entry never
  reports a size for a folder and never reports the sentinel -1 as a size. A folder or an
  entry of unknown size is always serialized; where the keys are present, \<open>size\<close> holds the
  entry's size.
\<close>

theorem to_dict_size_keys:
  "(is_dir r \<or> size_bytes r < 0 \<longrightarrow> (\<exists>d. to_dict r = Inr d))
   \<and> (\<forall>d. to_dict r = Inr d \<longrightarrow>
         (''size'' \<in> fst ` set d \<longleftrightarrow> \<not> is_dir r \<and> size_bytes r \<ge> 0)
       \<and> (''size_human'' \<in> fst ` set d \<longleftrightarrow> \<not> is_dir r \<and> size_bytes r \<ge> 0)
       \<and> (\<forall>w. (''size'', w) \<in> set d \<longrightarrow> w = IntV (size_bytes r) \<and> size_bytes r \<noteq> - 1))"
proof -
  define T :: "pydict \<Rightarrow> pydict" where
    "T = (\<lambda>d1.
       let d2 = (if extension r \<noteq> [] then dict_set d1 ''extension'' (StrV (extension r)) else d1);
           d3 = (if date_modified r \<noteq> []
                 then dict_set d2 ''date_modified'' (StrV (date_modified r)) else d2);
           d4 = (if date_created r \<noteq> []
                 then dict_set d3 ''date_created'' (StrV (date_created r)) else d3)
       in d4)"
  define D0 :: pydict where
    "D0 = [(''path'', StrV (path r)), (''name'', StrV (name r)),
           (''type'', StrV (if is_dir r then ''folder'' else ''file''))]"
  define D1 :: "string \<Rightarrow> pydict" where
    "D1 = (\<lambda>h. dict_set (dict_set D0 ''size'' (IntV (size_bytes r))) ''size_human'' (StrV h))"
  have T1: "(''size'' \<in> fst ` set (T d)) = (''size'' \<in> fst ` set d)" for d
    by (simp add: T_def Let_def dict_set_keys)
  have T2: "(''size_human'' \<in> fst ` set (T d)) = (''size_human'' \<in> fst ` set d)" for d
    by (simp add: T_def Let_def dict_set_keys)
  have T3: "((''size'', w) \<in> set (T d)) = ((''size'', w) \<in> set d)" for d w
    by (simp add: T_def Let_def dict_set_other)
  have D0a: "''size'' \<notin> fst ` set D0" and D0b: "''size_human'' \<notin> fst ` set D0"
    and D0c: "(''size'', w) \<notin> set D0" for w
    by (simp_all add: D0_def)
  have D1a: "''size'' \<in> fst ` set (D1 h)" and D1b: "''size_human'' \<in> fst ` set (D1 h)" for h
    by (simp_all add: D1_def dict_set_keys)
  have D1c: "((''size'', w) \<in> set (D1 h)) = (w = IntV (size_bytes r))" for w h
    using D0a by (simp add: D1_def dict_set_other dict_set_fresh)
  have td: "to_dict r =
      (if \<not> is_dir r \<and> size_bytes r \<ge> 0
       then (case human_size (size_bytes r) of Inl e \<Rightarrow> Inl e | Inr h \<Rightarrow> Inr (T (D1 h)))
       else Inr (T D0))"
    by (simp add: to_dict_def T_def D0_def D1_def Let_def split: sum.splits)
  show ?thesis
  proof (cases "\<not> is_dir r \<and> size_bytes r \<ge> 0")
    case False
    then have "to_dict r = Inr (T D0)" by (simp only: td if_False)
    with False show ?thesis using T1 T2 T3 D0a D0b D0c by auto
  next
    case True
    show ?thesis
    proof (cases "human_size (size_bytes r)")
      case (Inl e)
      with True have "to_dict r = Inl e" by (simp add: td)
      with True show ?thesis by auto
    next
      case (Inr h)
      with True have "to_dict r = Inr (T (D1 h))" by (simp add: td)
      with True show ?thesis using T1 T2 T3 D1a D1b D1c by auto
    qed
  qed
qed

theorem to_dict_size_keys_witness:
  "size_bytes (new_SearchResult ''/a'' ''a'') < 0
   \<and> to_dict (new_SearchResult ''/a'' ''a'') =
       Inr [(''path'', StrV ''/a''), (''name'', StrV ''a''), (''type'', StrV ''file'')]
   \<and> ''size'' \<notin> fst ` set [(''path'', StrV ''/a''), (''name'', StrV ''a''), (''type'', StrV ''file'')]"
proof -
  have e: "to_dict (new_SearchResult ''/a'' ''a'') =
     Inr [(''path'', StrV ''/a''), (''name'', StrV ''a''), (''type'', StrV ''file'')]"
    by (simp add: to_dict_def new_SearchResult_def)
  have s: "size_bytes (new_SearchResult ''/a'' ''a'') < 0"
    by (simp add: new_SearchResult_def)
  show ?thesis using e s to_dict_size_keys[of "new_SearchResult ''/a'' ''a''"] by simp
qed

section \<open>Decoding the tool's output\<close>

text \<open>
  C3: for every byte sequence that begins with the byte-order mark EF BB BF, decoding
  strips exactly those three bytes and decodes the remainder as UTF-8 (with replacement).
  Without that prefix the strict UTF-8 result is returned; when it fails, the locale's
  encoding is tried, and when that fails too the result is the lossy UTF-8 decoding.
  Decoding never raises, given that the codecs fail as \<open>bytes.decode\<close> does: with
  \<open>UnicodeDecodeError\<close>, or \<open>LookupError\<close> for the locale's encoding.
\<close>

theorem decode_output_cases:
  "decode_output env (0xEF # 0xBB # 0xBF # rest) = Inr (utf8_replace env rest)
   \<and> (take 3 data \<noteq> [0xEF, 0xBB, 0xBF] \<longrightarrow>
        (\<forall>s. utf8_decode env data = Inr s \<longrightarrow> decode_output env data = Inr s)
      \<and> (utf8_decode env data = Inl UnicodeDecodeError \<longrightarrow>
           (\<forall>s. locale_decode env data = Inr s \<longrightarrow> decode_output env data = Inr s)
         \<and> (locale_decode env data = Inl UnicodeDecodeError \<or> locale_decode env data = Inl LookupError
              \<longrightarrow> decode_output env data = Inr (utf8_replace env data))))
   \<and> ((\<forall>e. utf8_decode env data = Inl e \<longrightarrow> e = UnicodeDecodeError)
        \<and> (\<forall>e. locale_decode env data = Inl e \<longrightarrow> e = UnicodeDecodeError \<or> e = LookupError)
       \<longrightarrow> (\<exists>s. decode_output env data = Inr s))"
proof (intro conjI impI allI)
  show "decode_output env (0xEF # 0xBB # 0xBF # rest) = Inr (utf8_replace env rest)"
    by (simp add: decode_output_def)
next
  fix s assume "take 3 data \<noteq> [0xEF, 0xBB, 0xBF]" "utf8_decode env data = Inr s"
  then show "decode_output env data = Inr s" by (simp add: decode_output_def)
next
  fix s
  assume "take 3 data \<noteq> [0xEF, 0xBB, 0xBF]" "utf8_decode env data = Inl UnicodeDecodeError"
    "locale_decode env data = Inr s"
  then show "decode_output env data = Inr s" by (simp add: decode_output_def)
next
  assume "take 3 data \<noteq> [0xEF, 0xBB, 0xBF]" "utf8_decode env data = Inl UnicodeDecodeError"
    "locale_decode env data = Inl UnicodeDecodeError \<or> locale_decode env data = Inl LookupError"
  then show "decode_output env data = Inr (utf8_replace env data)"
    by (auto simp: decode_output_def)
next
  assume c: "(\<forall>e. utf8_decode env data = Inl e \<longrightarrow> e = UnicodeDecodeError)
        \<and> (\<forall>e. locale_decode env data = Inl e \<longrightarrow> e = UnicodeDecodeError \<or> e = LookupError)"
  show "\<exists>s. decode_output env data = Inr s"
  proof (cases "take 3 data = [0xEF, 0xBB, 0xBF]")
    case True
    then show ?thesis by (simp add: decode_output_def)
  next
    case False
    show ?thesis
    proof (cases "utf8_decode env data")
      case (Inr s)
      with False show ?thesis by (simp add: decode_output_def)
    next
      case (Inl e)
      with c have e: "e = UnicodeDecodeError" by blast
      show ?thesis
      proof (cases "locale_decode env data")
        case (Inr s)
        with False Inl e show ?thesis by (simp add: decode_output_def)
      next
        case (Inl e')
        with c have "e' = UnicodeDecodeError \<or> e' = LookupError" by blast
        with False \<open>utf8_decode env data = Inl e\<close> e Inl show ?thesis
          by (auto simp: decode_output_def)
      qed
    qed
  qed
qed

theorem decode_output_cases_witness:
  "decode_output sample_env [0xEF, 0xBB, 0xBF, 0x68, 0x69] = Inr ''hi''
   \<and> take 3 [0xE9 :: 8 word] \<noteq> [0xEF, 0xBB, 0xBF]
   \<and> utf8_decode sample_env [0xE9] = Inl UnicodeDecodeError
   \<and> locale_decode sample_env [0xE9] = Inl UnicodeDecodeError
   \<and> decode_output sample_env [0xE9] = Inr ''?''"
proof -
  have a: "utf8_decode sample_env [0xE9] = Inl UnicodeDecodeError"
    and b: "locale_decode sample_env [0xE9] = Inl UnicodeDecodeError"
    and c: "utf8_replace sample_env [0xE9] = ''?''"
    and d: "utf8_replace sample_env [0x68, 0x69] = ''hi''"
    by code_simp+
  have t: "take 3 [0xE9 :: 8 word] \<noteq> [0xEF, 0xBB, 0xBF]" by simp
  show ?thesis
    using a b c d t decode_output_cases[of sample_env "[0x68, 0x69]" "[0xE9]"] by simp
qed

section \<open>Counting and total size\<close>

lemma py_int_raises: "py_int m s = Inl e \<Longrightarrow> e = ValueError"
  by (auto simp: py_int_def Let_def split: if_splits option.splits)

lemma parse_count_unparseable:
  "\<forall>n. py_int (int_max_str_digits env) (strip out) \<noteq> Inr n \<Longrightarrow> parse_count env out = Inr (- 1)"
proof -
  assume a: "\<forall>n. py_int (int_max_str_digits env) (strip out) \<noteq> Inr n"
  then obtain e where e: "py_int (int_max_str_digits env) (strip out) = Inl e"
    by (cases "py_int (int_max_str_digits env) (strip out)") auto
  then have "e = ValueError" by (rule py_int_raises)
  with e show ?thesis by (simp add: parse_count_def)
qed

text \<open>
  C4: for every count or total-size query whose subprocess exits with code 0 and whose
  stripped stdout does not parse as an integer, \<open>count\<close> and \<open>get_total_size\<close> return
  the sentinel -1 instead of raising.
\<close>

theorem unparseable_count_is_sentinel:
  assumes "\<forall>n. py_int (int_max_str_digits env) (strip out) \<noteq> Inr n"
  shows "(run env config (base_cmd config @ [''-get-result-count'', query]) = Inr (out, err, 0)
           \<longrightarrow> count env config query = Inr (- 1))
       \<and> (run env config (base_cmd config @ [''-get-total-size'', query]) = Inr (out, err, 0)
           \<longrightarrow> get_total_size env config query = Inr (- 1))"
  using parse_count_unparseable[OF assms] by (simp add: count_def get_total_size_def)

theorem unparseable_count_is_sentinel_witness:
  "(\<forall>n. py_int (int_max_str_digits garbled_count_env) (strip (''abc'' @ [CHR 0x0A])) \<noteq> Inr n)
   \<and> run garbled_count_env sample_config (base_cmd sample_config @ [''-get-result-count'', ''ext:py''])
       = Inr (''abc'' @ [CHR 0x0A], [], 0)
   \<and> count garbled_count_env sample_config ''ext:py'' = Inr (- 1)
   \<and> get_total_size garbled_count_env sample_config ''ext:py'' = Inr (- 1)"
proof -
  have p: "\<forall>n. py_int (int_max_str_digits garbled_count_env) (strip (''abc'' @ [CHR 0x0A])) \<noteq> Inr n"
  proof -
    have "py_int (int_max_str_digits garbled_count_env) (strip (''abc'' @ [CHR 0x0A])) = Inl ValueError"
      by code_simp
    then show ?thesis by simp
  qed
  have r1: "run garbled_count_env sample_config (base_cmd sample_config @ [''-get-result-count'', ''ext:py''])
       = Inr (''abc'' @ [CHR 0x0A], [], 0)" by code_simp
  have r2: "run garbled_count_env sample_config (base_cmd sample_config @ [''-get-total-size'', ''ext:py''])
       = Inr (''abc'' @ [CHR 0x0A], [], 0)" by code_simp
  show ?thesis
    using p r1 r2
      unparseable_count_is_sentinel[OF p, of sample_config "''ext:py''" "[]"]
    by simp
qed

section \<open>Non-zero exit codes\<close>

text \<open>
  C1: when the tool exits with a non-zero code, \<open>search\<close>, \<open>count\<close> and
  \<open>get_total_size\<close> should each raise an error whose message carries stderr, or stdout
  if stderr is empty, or otherwise a generic "exited with code N" text. Run on a tool that
  exits with code 1 and writes nothing, \<open>search\<close> gives the generic text, while
  \<open>count\<close> and \<open>get_total_size\<close> raise with nothing after their prefix.
\<close>

theorem silent_failure_messages:
  "is_valid sample_config
   \<and> run silent_failure_env sample_config (base_cmd sample_config @ [''-get-result-count'', ''*.py''])
     = Inr ([], [], 1)
   \<and> count silent_failure_env sample_config ''*.py'' = Inl (RuntimeError ''Count failed: '')
   \<and> get_total_size silent_failure_env sample_config ''*.py''
       = Inl (RuntimeError ''Total size failed: '')
   \<and> search silent_failure_env sample_config ''*.py'' 100 ''name'' False False False False 0
       = Inl (RuntimeError ''Everything search failed: es.exe exited with code 1'')"
proof -
  have a: "run silent_failure_env sample_config (base_cmd sample_config @ [''-get-result-count'', ''*.py''])
     = Inr ([], [], 1)" by code_simp
  have b: "count silent_failure_env sample_config ''*.py'' = Inl (RuntimeError ''Count failed: '')"
    by code_simp
  have c: "get_total_size silent_failure_env sample_config ''*.py''
       = Inl (RuntimeError ''Total size failed: '')" by code_simp
  have d: "search silent_failure_env sample_config ''*.py'' 100 ''name'' False False False False 0
       = Inl (RuntimeError ''Everything search failed: es.exe exited with code 1'')" by code_simp
  have v: "is_valid sample_config" by code_simp
  show ?thesis using v a b c d by blast
qed

section \<open>Validity of a configuration\<close>

lemma auto_detect_not_found:
  assumes "find_es_exe env (strip (environ_get env ''EVERYTHING_ES_PATH'' [])) = Inr []"
  shows "\<exists>cfg. auto_detect env = Inr cfg \<and> errors cfg = [not_found_message] \<and> \<not> is_valid cfg"
  using assms by (simp add: auto_detect_def Let_def new_EverythingConfig_def is_valid_def)

lemma auto_detect_probe_failed:
  assumes "auto_detect env = Inr cfg" and "es_path cfg \<noteq> []"
    and "test_connection env (es_path cfg) (instance_id cfg) = Inr (False, info)"
  shows "errors cfg = [cannot_connect_message info] \<and> \<not> is_valid cfg"
proof -
  let ?ep = "strip (environ_get env ''EVERYTHING_ES_PATH'' [])"
  let ?ei = "strip (environ_get env ''EVERYTHING_INSTANCE'' [])"
  obtain found where f: "find_es_exe env ?ep = Inr found"
    using assms(1) by (cases "find_es_exe env ?ep") (simp_all add: auto_detect_def Let_def)
  have nf: "found \<noteq> []"
  proof
    assume "found = []"
    with f assms(1) have "es_path cfg = []"
      by (auto simp: auto_detect_def Let_def new_EverythingConfig_def)
    with assms(2) show False by simp
  qed
  define c2 where "c2 = (if ?ei \<noteq> [] then new_EverythingConfig\<lparr>instance_id := ?ei\<rparr>
                          else new_EverythingConfig)\<lparr>es_path := found\<rparr>"
  have c2e: "errors c2 = []" "es_path c2 = found"
    by (simp_all add: c2_def new_EverythingConfig_def)
  define step where "step = (if instance_id c2 = [] then
                        (case detect_instance env (es_path c2) of
                           Inl e \<Rightarrow> Inl e
                         | Inr inst \<Rightarrow> Inr (c2\<lparr>instance_id := inst\<rparr>))
                      else Inr c2)"
  have ad: "auto_detect env =
     (case step of
        Inl e \<Rightarrow> Inl e
      | Inr config3 \<Rightarrow>
          (case test_connection env (es_path config3) (instance_id config3) of
             Inl e \<Rightarrow> Inl e
           | Inr (ok, info) \<Rightarrow>
               if ok then Inr (config3\<lparr>version_info := info\<rparr>)
               else Inr (config3\<lparr>errors := errors config3 @ [cannot_connect_message info]\<rparr>)))"
    unfolding auto_detect_def Let_def step_def c2_def
    using f nf by (simp add: new_EverythingConfig_def)
  obtain c3 where s: "step = Inr c3"
    using assms(1) ad by (cases step) simp_all
  have c3e: "errors c3 = []" "es_path c3 = found"
    using s c2e by (auto simp: step_def split: if_splits sum.splits)
  obtain ok info' where t: "test_connection env (es_path c3) (instance_id c3) = Inr (ok, info')"
    using assms(1) ad s by (cases "test_connection env (es_path c3) (instance_id c3)") auto
  have cfg: "cfg = (if ok then c3\<lparr>version_info := info'\<rparr>
                    else c3\<lparr>errors := errors c3 @ [cannot_connect_message info']\<rparr>)"
    using assms(1) ad s t by (simp split: if_splits)
  then have same: "es_path cfg = es_path c3" "instance_id cfg = instance_id c3"
    by (simp_all split: if_splits)
  with assms(3) t have "ok = False" "info' = info" by simp_all
  with cfg c3e show ?thesis by (simp add: is_valid_def)
qed

text \<open>
  C7: a configuration is valid if and only if its executable path is non-empty and its
  error list is empty. When discovery returns no path, \<open>auto_detect\<close> returns a
  configuration whose only error is the not-found message, and it is invalid; every
  configuration \<open>auto_detect\<close> returns with a path for which the connectivity probe
  fails carries the cannot-connect message built from the probe's text as its only
  error, and it is invalid.
\<close>

theorem is_valid_and_auto_detect:
  "(is_valid config \<longleftrightarrow> es_path config \<noteq> [] \<and> errors config = [])
   \<and> (find_es_exe env (strip (environ_get env ''EVERYTHING_ES_PATH'' [])) = Inr [] \<longrightarrow>
        (\<exists>cfg. auto_detect env = Inr cfg \<and> errors cfg = [not_found_message] \<and> \<not> is_valid cfg))
   \<and> (\<forall>cfg info. auto_detect env = Inr cfg \<and> es_path cfg \<noteq> []
          \<and> test_connection env (es_path cfg) (instance_id cfg) = Inr (False, info)
        \<longrightarrow> errors cfg = [cannot_connect_message info] \<and> \<not> is_valid cfg)"
  using auto_detect_not_found auto_detect_probe_failed by (auto simp: is_valid_def)

theorem is_valid_and_auto_detect_witness:
  "find_es_exe sample_env (strip (environ_get sample_env ''EVERYTHING_ES_PATH'' [])) = Inr []
   \<and> auto_detect sample_env = Inr (new_EverythingConfig\<lparr>errors := [not_found_message]\<rparr>)
   \<and> \<not> is_valid (new_EverythingConfig\<lparr>errors := [not_found_message]\<rparr>)
   \<and> auto_detect engine_down_env =
       Inr (new_EverythingConfig\<lparr>es_path := ''/usr/bin/es'',
              errors := [cannot_connect_message ''Error 8'']\<rparr>)
   \<and> test_connection engine_down_env ''/usr/bin/es'' [] = Inr (False, ''Error 8'')
   \<and> \<not> is_valid (new_EverythingConfig\<lparr>es_path := ''/usr/bin/es'',
              errors := [cannot_connect_message ''Error 8'']\<rparr>)"
proof -
  have a: "find_es_exe sample_env (strip (environ_get sample_env ''EVERYTHING_ES_PATH'' [])) = Inr []"
    by code_simp
  have b: "auto_detect sample_env = Inr (new_EverythingConfig\<lparr>errors := [not_found_message]\<rparr>)"
    by code_simp
  have c: "auto_detect engine_down_env =
       Inr (new_EverythingConfig\<lparr>es_path := ''/usr/bin/es'',
              errors := [cannot_connect_message ''Error 8'']\<rparr>)"
    by code_simp
  have d: "test_connection engine_down_env ''/usr/bin/es'' [] = Inr (False, ''Error 8'')"
    by code_simp
  have e: "es_path (new_EverythingConfig\<lparr>es_path := ''/usr/bin/es'',
              errors := [cannot_connect_message ''Error 8'']\<rparr>) \<noteq> []"
     "instance_id (new_EverythingConfig\<lparr>es_path := ''/usr/bin/es'',
              errors := [cannot_connect_message ''Error 8'']\<rparr>) = []"
    by (simp_all add: new_EverythingConfig_def)
  show ?thesis
    using a b c d e
      is_valid_and_auto_detect[of "new_EverythingConfig\<lparr>errors := [not_found_message]\<rparr>" sample_env]
      is_valid_and_auto_detect[of "new_EverythingConfig" engine_down_env]
    by (auto simp: new_EverythingConfig_def)
qed

section \<open>Verifying a candidate executable\<close>

lemma set_strip: "set (strip s) \<subseteq> set s"
proof -
  have "set (strip s) \<subseteq> set (lstrip s)"
    using set_dropWhileD[of _ isspace "rev (lstrip s)"] by (auto simp: strip_def rstrip_def)
  also have "\<dots> \<subseteq> set s"
    using set_dropWhileD[of _ isspace s] by (auto simp: lstrip_def)
  finally show ?thesis .
qed

lemma list_ex_strip: "list_ex P (strip s) \<Longrightarrow> list_ex P s"
  using set_strip[of s] by (auto simp: list_ex_iff)

lemma strip_nonempty: "strip s \<noteq> [] \<Longrightarrow> s \<noteq> []"
  by (auto simp: strip_def rstrip_def lstrip_def)

text \<open>
  C6, as amended: for every candidate path whose probes either complete or fail with
  \<open>subprocess.TimeoutExpired\<close>, \<open>FileNotFoundError\<close> or another \<open>OSError\<close>, the verifier
  returns a boolean and does not raise; such a failure of both probes yields false; it
  returns true only when the version-query probe's stdout is non-empty and contains at
  least one digit, or the \<open>-version\<close> fallback's stdout contains the product name
  case-insensitively. An exception of any other class raised by a probe reaches the caller.
\<close>

theorem is_everything_es_handled:
  "((\<forall>e. subprocess_run env [p, ''-get-everything-version''] 5 = Inl e \<longrightarrow> probe_caught e)
      \<and> (\<forall>e. subprocess_run env [p, ''-version''] 5 = Inl e \<longrightarrow> probe_caught e)
     \<longrightarrow> (\<exists>b. is_everything_es env p = Inr b))
   \<and> (\<forall>e1 e2. subprocess_run env [p, ''-get-everything-version''] 5 = Inl e1 \<and> probe_caught e1
          \<and> subprocess_run env [p, ''-version''] 5 = Inl e2 \<and> probe_caught e2
        \<longrightarrow> is_everything_es env p = Inr False)
   \<and> (is_everything_es env p = Inr True \<longrightarrow>
        (\<exists>r. subprocess_run env [p, ''-get-everything-version''] 5 = Inr r
              \<and> proc_stdout r \<noteq> [] \<and> list_ex isdigit (proc_stdout r))
      \<or> (\<exists>r. subprocess_run env [p, ''-version''] 5 = Inr r
              \<and> contains (lower (proc_stdout r)) ''everything''))
   \<and> (\<forall>e. subprocess_run env [p, ''-get-everything-version''] 5 = Inl e \<and> \<not> probe_caught e
        \<longrightarrow> is_everything_es env p = Inl e)
   \<and> (\<forall>e1 e. subprocess_run env [p, ''-get-everything-version''] 5 = Inl e1 \<and> probe_caught e1
          \<and> subprocess_run env [p, ''-version''] 5 = Inl e \<and> \<not> probe_caught e
        \<longrightarrow> is_everything_es env p = Inl e)"
proof (intro conjI impI allI)
  assume h: "(\<forall>e. subprocess_run env [p, ''-get-everything-version''] 5 = Inl e \<longrightarrow> probe_caught e)
      \<and> (\<forall>e. subprocess_run env [p, ''-version''] 5 = Inl e \<longrightarrow> probe_caught e)"
  show "\<exists>b. is_everything_es env p = Inr b"
  proof (cases "subprocess_run env [p, ''-get-everything-version''] 5")
    case (Inr r)
    then show ?thesis by (simp add: is_everything_es_def Let_def)
  next
    case (Inl e)
    with h have c: "probe_caught e" by blast
    show ?thesis
    proof (cases "subprocess_run env [p, ''-version''] 5")
      case (Inr r)
      with Inl c show ?thesis by (simp add: is_everything_es_def)
    next
      case (Inl e')
      with h have "probe_caught e'" by blast
      with Inl \<open>subprocess_run env [p, ''-get-everything-version''] 5 = Inl e\<close> c
      show ?thesis by (auto simp: is_everything_es_def)
    qed
  qed
next
  fix e1 e2
  assume "subprocess_run env [p, ''-get-everything-version''] 5 = Inl e1 \<and> probe_caught e1
          \<and> subprocess_run env [p, ''-version''] 5 = Inl e2 \<and> probe_caught e2"
  then show "is_everything_es env p = Inr False" by (simp add: is_everything_es_def)
next
  assume t: "is_everything_es env p = Inr True"
  show "(\<exists>r. subprocess_run env [p, ''-get-everything-version''] 5 = Inr r
              \<and> proc_stdout r \<noteq> [] \<and> list_ex isdigit (proc_stdout r))
      \<or> (\<exists>r. subprocess_run env [p, ''-version''] 5 = Inr r
              \<and> contains (lower (proc_stdout r)) ''everything'')"
  proof (cases "subprocess_run env [p, ''-get-everything-version''] 5")
    case (Inr r)
    with t have "strip (proc_stdout r) \<noteq> []" "list_ex isdigit (strip (proc_stdout r))"
      by (simp_all add: is_everything_es_def Let_def)
    then have "proc_stdout r \<noteq> []" "list_ex isdigit (proc_stdout r)"
      by (simp_all add: strip_nonempty list_ex_strip)
    with Inr show ?thesis by simp
  next
    case (Inl e)
    with t show ?thesis
      by (auto simp: is_everything_es_def split: if_splits sum.splits)
  qed
next
  fix e
  assume "subprocess_run env [p, ''-get-everything-version''] 5 = Inl e \<and> \<not> probe_caught e"
  then show "is_everything_es env p = Inl e" by (simp add: is_everything_es_def)
next
  fix e1 e
  assume "subprocess_run env [p, ''-get-everything-version''] 5 = Inl e1 \<and> probe_caught e1
          \<and> subprocess_run env [p, ''-version''] 5 = Inl e \<and> \<not> probe_caught e"
  then show "is_everything_es env p = Inl e" by (simp add: is_everything_es_def)
qed

theorem is_everything_es_handled_witness:
  "subprocess_run sample_env [''es'', ''-get-everything-version''] 5 = Inl FileNotFoundError
   \<and> subprocess_run sample_env [''es'', ''-version''] 5 = Inl FileNotFoundError
   \<and> probe_caught FileNotFoundError
   \<and> is_everything_es sample_env ''es'' = Inr False
   \<and> is_everything_es version_env ''es'' = Inr True
   \<and> list_ex isdigit (''1.4.1.1024'' @ [CHR 0x0A])"
proof -
  have a: "subprocess_run sample_env [''es'', ''-get-everything-version''] 5 = Inl FileNotFoundError"
    and b: "subprocess_run sample_env [''es'', ''-version''] 5 = Inl FileNotFoundError"
    and c: "probe_caught FileNotFoundError"
    by (simp_all add: sample_env_def probe_caught_def)
  have d: "is_everything_es version_env ''es'' = Inr True" by code_simp
  have e: "subprocess_run version_env [''es'', ''-get-everything-version''] 5
            = Inr \<lparr>returncode = 0, proc_stdout = ''1.4.1.1024'' @ [CHR 0x0A], proc_stderr = []\<rparr>"
    and f: "subprocess_run version_env [''es'', ''-version''] 5
            = Inr \<lparr>returncode = 0, proc_stdout = ''1.4.1.1024'' @ [CHR 0x0A], proc_stderr = []\<rparr>"
    by (simp_all add: version_env_def sample_env_def)
  have g: "\<not> contains (lower (''1.4.1.1024'' @ [CHR 0x0A])) ''everything''" by code_simp
  show ?thesis
    using a b c d e f g is_everything_es_handled[of sample_env "''es''"]
      is_everything_es_handled[of version_env "''es''"]
    by auto
qed

text \<open>
  Without the restriction on how a probe fails the verifier does raise: a program whose
  output is no text in the locale's encoding makes \<open>subprocess.run\<close> raise
  \<open>UnicodeDecodeError\<close>, which the handlers do not name.
\<close>

theorem is_everything_es_raises:
  "is_everything_es undecodable_env ''es'' = Inl UnicodeDecodeError"
  by code_simp

section \<open>Materializing the tool's output\<close>

lemma stat_to_result_some: "\<exists>r. stat_to_result env fp = Inr (Some r)"
  by (simp add: stat_to_result_def split: sum.splits)

lemma parse_lines_char:
  "parse_lines env ls acc =
     Inr (acc @ map (\<lambda>fp. the (projr (stat_to_result env fp)))
                  (filter (\<lambda>fp. strip fp \<noteq> [] \<and> looks_like_path fp)
                     (map (rstrip_chars [CHR 0x0D, CHR 0x0A]) ls)))"
proof (induction ls arbitrary: acc)
  case Nil
  show ?case by simp
next
  case (Cons raw_line rest)
  let ?fp = "rstrip_chars [CHR 0x0D, CHR 0x0A] raw_line"
  obtain r where r: "stat_to_result env ?fp = Inr (Some r)"
    using stat_to_result_some by blast
  show ?case
  proof (cases "strip ?fp \<noteq> [] \<and> looks_like_path ?fp")
    case True
    then show ?thesis using r Cons.IH[of "acc @ [r]"] by (simp add: Let_def)
  next
    case False
    then show ?thesis using Cons.IH[of acc] by (auto simp: Let_def)
  qed
qed

lemma crlf_linebreak: "is_linebreak (CHR 0x0D)" "is_linebreak (CHR 0x0A)"
  by code_simp+

lemma splitlines_from_clean:
  "l \<in> set (splitlines_from cur s) \<Longrightarrow> \<forall>c\<in>set cur. \<not> is_linebreak c
   \<Longrightarrow> \<forall>c\<in>set l. \<not> is_linebreak c"
proof (induction cur s rule: splitlines_from.induct)
  case (1 cur)
  then show ?case by (cases "cur = []") simp_all
next
  case (2 cur c cs)
  have e: "\<forall>x\<in>set ([] :: string). \<not> is_linebreak x" by simp
  show ?case
  proof (cases "is_linebreak c")
    case False
    from "2.prems"(1) False have m: "l \<in> set (splitlines_from (cur @ [c]) cs)" by simp
    have k: "\<forall>x\<in>set (cur @ [c]). \<not> is_linebreak x" using "2.prems"(2) False by simp
    from "2.IH"(3)[OF False m k] show ?thesis .
  next
    case True
    show ?thesis
    proof (cases "c = CHR 0x0D \<and> cs \<noteq> [] \<and> hd cs = CHR 0x0A")
      case t: True
      from "2.prems"(1) True t have "l \<in> set (cur # splitlines_from [] (tl cs))" by simp
      then have "l = cur \<or> l \<in> set (splitlines_from [] (tl cs))" by simp
      then show ?thesis
      proof
        assume "l = cur"
        with "2.prems"(2) show ?thesis by simp
      next
        assume m: "l \<in> set (splitlines_from [] (tl cs))"
        from "2.IH"(1)[OF True t m e] show ?thesis .
      qed
    next
      case f: False
      from "2.prems"(1) True f have "l \<in> set (cur # splitlines_from [] cs)" by auto
      then have "l = cur \<or> l \<in> set (splitlines_from [] cs)" by simp
      then show ?thesis
      proof
        assume "l = cur"
        with "2.prems"(2) show ?thesis by simp
      next
        assume m: "l \<in> set (splitlines_from [] cs)"
        from "2.IH"(2)[OF True f m e] show ?thesis .
      qed
    qed
  qed
qed

lemma splitlines_clean: "l \<in> set (splitlines s) \<Longrightarrow> c \<in> set l \<Longrightarrow> \<not> is_linebreak c"
  using splitlines_from_clean[of l "[]" s] by (auto simp: splitlines_def)

lemma rstrip_chars_clean: "\<forall>c\<in>set l. c \<notin> set chars \<Longrightarrow> rstrip_chars chars l = l"
proof -
  assume a: "\<forall>c\<in>set l. c \<notin> set chars"
  have "dropWhile (\<lambda>c. c \<in> set chars) (rev l) = rev l"
    using a by (cases "rev l") auto
  then show ?thesis by (simp add: rstrip_chars_def)
qed

lemma rstrip_crlf_line:
  "l \<in> set (splitlines s) \<Longrightarrow> rstrip_chars [CHR 0x0D, CHR 0x0A] l = l"
proof -
  assume a: "l \<in> set (splitlines s)"
  have "\<forall>c\<in>set l. c \<notin> set [CHR 0x0D, CHR 0x0A]"
    using splitlines_clean[OF a] crlf_linebreak by auto
  then show ?thesis by (rule rstrip_chars_clean)
qed

lemma parse_paths_char:
  "parse_paths_and_stat env out =
     Inr (map (\<lambda>fp. the (projr (stat_to_result env fp)))
            (filter (\<lambda>fp. strip fp \<noteq> [] \<and> looks_like_path fp) (splitlines out)))"
proof -
  have h: "map (rstrip_chars [CHR 0x0D, CHR 0x0A]) (splitlines out) = splitlines out"
    by (rule map_idI) (erule rstrip_crlf_line)
  show ?thesis unfolding parse_paths_and_stat_def parse_lines_char h by simp
qed

lemma looks_like_path_shapes:
  "looks_like_path s \<longleftrightarrow> drive_letter_shape s \<or> unc_shape s \<or> leading_slash_shape s"
proof (cases s)
  case Nil
  then show ?thesis
    by (simp add: looks_like_path_def drive_letter_shape_def unc_shape_def leading_slash_shape_def
        startswith_def)
next
  case (Cons a s1)
  note c1 = Cons
  show ?thesis
  proof (cases s1)
    case Nil
    with c1 show ?thesis
      by (auto simp: looks_like_path_def drive_letter_shape_def unc_shape_def
          leading_slash_shape_def startswith_def)
  next
    case (Cons b s2)
    note c2 = Cons
    show ?thesis
    proof (cases s2)
      case Nil
      with c1 c2 show ?thesis
        by (auto simp: looks_like_path_def drive_letter_shape_def unc_shape_def
            leading_slash_shape_def startswith_def)
    next
      case (Cons c s3)
      with c1 c2 show ?thesis
        by (auto simp: looks_like_path_def drive_letter_shape_def unc_shape_def
            leading_slash_shape_def startswith_def numeral_2_eq_2)
    qed
  qed
qed

lemma shapes_append:
  "drive_letter_shape a \<Longrightarrow> drive_letter_shape (a @ z)"
  "unc_shape a \<Longrightarrow> unc_shape (a @ z)"
  "leading_slash_shape a \<Longrightarrow> leading_slash_shape (a @ z)"
  by (auto simp: drive_letter_shape_def unc_shape_def leading_slash_shape_def split: list.splits)

lemma rstrip_chars_prefix: "\<exists>z. l = rstrip_chars chars l @ z"
proof -
  have "rev l = takeWhile (\<lambda>c. c \<in> set chars) (rev l) @ dropWhile (\<lambda>c. c \<in> set chars) (rev l)"
    by simp
  then have "l = rev (dropWhile (\<lambda>c. c \<in> set chars) (rev l)) @ rev (takeWhile (\<lambda>c. c \<in> set chars) (rev l))"
    by (metis rev_append rev_rev_ident)
  then show ?thesis unfolding rstrip_chars_def by blast
qed

lemma no_shape_rstrip:
  assumes "\<not> drive_letter_shape l" "\<not> unc_shape l" "\<not> leading_slash_shape l"
  shows "\<not> looks_like_path (rstrip_chars chars l)"
proof
  assume "looks_like_path (rstrip_chars chars l)"
  then have s: "drive_letter_shape (rstrip_chars chars l) \<or> unc_shape (rstrip_chars chars l)
       \<or> leading_slash_shape (rstrip_chars chars l)"
    by (simp add: looks_like_path_shapes)
  obtain z where z: "l = rstrip_chars chars l @ z" using rstrip_chars_prefix by blast
  from s have "drive_letter_shape (rstrip_chars chars l @ z) \<or> unc_shape (rstrip_chars chars l @ z)
       \<or> leading_slash_shape (rstrip_chars chars l @ z)"
    using shapes_append by blast
  with z[symmetric] assms show False by simp
qed


text \<open>
  What the loop does with the pieces it is given: a piece that matches none of the three
  path shapes (an alphabetic drive letter followed by a colon and a slash or backslash, a
  leading double backslash, a leading forward slash) is skipped whatever it contains, so
  the loop gives the result it gives on the other pieces alone.
\<close>

lemma non_path_piece_excluded:
  assumes "\<not> drive_letter_shape l" and "\<not> unc_shape l" and "\<not> leading_slash_shape l"
  shows "\<not> looks_like_path l
       \<and> parse_lines env (xs @ l # ys) acc = parse_lines env (xs @ ys) acc
       \<and> (splitlines out = xs @ l # ys \<longrightarrow>
            parse_paths_and_stat env out = parse_lines env (xs @ ys) [])"
proof -
  have n: "\<not> looks_like_path l" using assms by (simp add: looks_like_path_shapes)
  have r: "\<not> looks_like_path (rstrip_chars [CHR 0x0D, CHR 0x0A] l)"
    using assms by (rule no_shape_rstrip)
  have e: "parse_lines env (xs @ l # ys) acc = parse_lines env (xs @ ys) acc" for acc
    using r by (simp add: parse_lines_char)
  show ?thesis using n e by (simp add: parse_paths_and_stat_def)
qed

lemma non_path_piece_excluded_example:
  "\<not> drive_letter_shape ''hello world'' \<and> \<not> unc_shape ''hello world''
   \<and> \<not> leading_slash_shape ''hello world''
   \<and> splitlines (''hello world'' @ [CHR 0x0A] @ ''/tmp/a'' @ [CHR 0x0A]) = [''hello world'', ''/tmp/a'']
   \<and> parse_paths_and_stat sample_env (''hello world'' @ [CHR 0x0A] @ ''/tmp/a'' @ [CHR 0x0A])
       = Inr [new_SearchResult ''/tmp/a'' ''a'']"
proof -
  have a: "\<not> drive_letter_shape ''hello world''" and b: "\<not> unc_shape ''hello world''"
    and c: "\<not> leading_slash_shape ''hello world''"
    by code_simp+
  have s: "splitlines (''hello world'' @ [CHR 0x0A] @ ''/tmp/a'' @ [CHR 0x0A])
             = [] @ ''hello world'' # [''/tmp/a'']"
    by code_simp
  have p: "parse_lines sample_env ([] @ [''/tmp/a'']) [] = Inr [new_SearchResult ''/tmp/a'' ''a'']"
    by code_simp
  from non_path_piece_excluded[OF a b c, of sample_env "[]" "[''/tmp/a'']" "[]"
      "''hello world'' @ [CHR 0x0A] @ ''/tmp/a'' @ [CHR 0x0A]"] s
  have "parse_paths_and_stat sample_env (''hello world'' @ [CHR 0x0A] @ ''/tmp/a'' @ [CHR 0x0A])
          = parse_lines sample_env ([] @ [''/tmp/a'']) []"
    by blast
  then have q: "parse_paths_and_stat sample_env (''hello world'' @ [CHR 0x0A] @ ''/tmp/a'' @ [CHR 0x0A])
          = Inr [new_SearchResult ''/tmp/a'' ''a'']"
    by (rule trans[OF _ p])
  from s have s': "splitlines (''hello world'' @ [CHR 0x0A] @ ''/tmp/a'' @ [CHR 0x0A])
             = [''hello world'', ''/tmp/a'']" by simp
  from a b c s' q show ?thesis by blast
qed

text \<open>
  The pieces are those of \<open>splitlines\<close>. A line of the output, read as the text up to
  its CR LF or LF, is one piece exactly when it holds none of the other boundary
  characters; such a line without a path shape is excluded whatever else it contains.
\<close>

lemma splitlines_from_lf:
  "splitlines_from cur (a @ CHR 0x0A # b) = splitlines_from cur (a @ [CHR 0x0A]) @ splitlines_from [] b"
proof (induction a arbitrary: cur rule: length_induct)
  case (1 a)
  show ?case
  proof (cases a)
    case Nil
    then show ?thesis using crlf_linebreak by simp
  next
    case (Cons c cs)
    show ?thesis
    proof (cases "is_linebreak c")
      case False
      then show ?thesis using Cons 1[rule_format, of cs "cur @ [c]"] by simp
    next
      case True
      show ?thesis
      proof (cases "c = CHR 0x0D \<and> cs \<noteq> [] \<and> hd cs = CHR 0x0A")
        case t: True
        then obtain cs' where cs: "cs = CHR 0x0A # cs'" by (cases cs) auto
        show ?thesis using Cons True t cs 1[rule_format, of cs' "[]"] by simp
      next
        case f: False
        show ?thesis
        proof (cases "c = CHR 0x0D \<and> cs = []")
          case True
          then show ?thesis using Cons crlf_linebreak by simp
        next
          case False
          with f have h: "\<not> (c = CHR 0x0D \<and> hd (cs @ CHR 0x0A # b) = CHR 0x0A)"
            by (cases cs) auto
          have h2: "\<not> (c = CHR 0x0D \<and> hd (cs @ [CHR 0x0A]) = CHR 0x0A)"
            using f False by (cases cs) auto
          show ?thesis using Cons True h h2 1[rule_format, of cs "[]"] by auto
        qed
      qed
    qed
  qed
qed

lemma splitlines_from_line:
  "\<forall>c\<in>set l. \<not> is_linebreak c \<Longrightarrow>
   splitlines_from cur (l @ CHR 0x0D # CHR 0x0A # b) = (cur @ l) # splitlines_from [] b"
  by (induction l arbitrary: cur) (simp_all add: crlf_linebreak)

lemma splitlines_from_line_lf:
  "\<forall>c\<in>set l. \<not> is_linebreak c \<Longrightarrow>
   splitlines_from cur (l @ CHR 0x0A # b) = (cur @ l) # splitlines_from [] b"
  by (induction l arbitrary: cur) (simp_all add: crlf_linebreak)

lemma splitlines_after_newline:
  "a = [] \<or> last a = CHR 0x0A \<Longrightarrow> splitlines (a @ b) = splitlines a @ splitlines b"
proof (cases "a = []")
  case True
  then show ?thesis by (simp add: splitlines_def)
next
  case False
  assume "a = [] \<or> last a = CHR 0x0A"
  with False have "a = butlast a @ [CHR 0x0A]" by (metis append_butlast_last_id)
  then obtain a' where a: "a = a' @ [CHR 0x0A]" ..
  show ?thesis unfolding splitlines_def a using splitlines_from_lf[of "[]" a' b] by simp
qed

lemma crlf_line_excluded:
  assumes nb: "\<forall>c\<in>set l. \<not> is_linebreak c"
    and ns: "\<not> drive_letter_shape l" "\<not> unc_shape l" "\<not> leading_slash_shape l"
    and st: "a = [] \<or> last a = CHR 0x0A"
    and tm: "t = [CHR 0x0D, CHR 0x0A] \<or> t = [CHR 0x0A]"
  shows "parse_paths_and_stat env (a @ l @ t @ b) = parse_paths_and_stat env (a @ b)"
proof -
  have one: "splitlines (l @ t @ b) = l # splitlines b"
    using tm splitlines_from_line[OF nb, of "[]" b] splitlines_from_line_lf[OF nb, of "[]" b]
    by (auto simp: splitlines_def)
  have s1: "splitlines (a @ l @ t @ b) = splitlines a @ l # splitlines b"
    using splitlines_after_newline[OF st, of "l @ t @ b"] one by simp
  have s2: "splitlines (a @ b) = splitlines a @ splitlines b"
    using st by (rule splitlines_after_newline)
  have "\<not> looks_like_path (rstrip_chars [CHR 0x0D, CHR 0x0A] l)"
    using ns by (rule no_shape_rstrip)
  then have "parse_lines env (splitlines a @ l # splitlines b) [] =
        parse_lines env (splitlines a @ splitlines b) []"
    by (simp add: parse_lines_char)
  then show ?thesis unfolding parse_paths_and_stat_def s1 s2 .
qed


text \<open>
  C5: a raw stdout line that is non-blank after trimming and matches none of the three
  path shapes should be excluded from the batch whatever it contains. It is, as long as it
  holds no line boundary of \<open>splitlines\<close> other than its own CR LF
  (\<open>crlf_line_excluded\<close>). But the output is cut with \<open>splitlines\<close>, so a line that
  holds NEL (U+0085) is cut there too, and the piece after the cut is judged on its own:
  the line \<open>hello\<close>, NEL, \<open>/etc/passwd\<close> has no path shape and contains neither CR nor
  LF, yet it puts the entry \<open>/etc/passwd\<close> into the batch, while the same line with a
  space in place of NEL is excluded.
\<close>

theorem boundary_splits_non_path_line:
  "\<not> drive_letter_shape (''hello'' @ [CHR 0x85] @ ''/etc/passwd'')
   \<and> \<not> unc_shape (''hello'' @ [CHR 0x85] @ ''/etc/passwd'')
   \<and> \<not> leading_slash_shape (''hello'' @ [CHR 0x85] @ ''/etc/passwd'')
   \<and> \<not> looks_like_path (''hello'' @ [CHR 0x85] @ ''/etc/passwd'')
   \<and> strip (''hello'' @ [CHR 0x85] @ ''/etc/passwd'') \<noteq> []
   \<and> CHR 0x0D \<notin> set (''hello'' @ [CHR 0x85] @ ''/etc/passwd'')
   \<and> CHR 0x0A \<notin> set (''hello'' @ [CHR 0x85] @ ''/etc/passwd'')
   \<and> parse_paths_and_stat sample_env (''hello'' @ [CHR 0x85] @ ''/etc/passwd'' @ [CHR 0x0D, CHR 0x0A])
       = Inr [new_SearchResult ''/etc/passwd'' ''passwd'']
   \<and> parse_paths_and_stat sample_env (''hello /etc/passwd'' @ [CHR 0x0D, CHR 0x0A]) = Inr []"
proof -
  have a: "\<not> drive_letter_shape (''hello'' @ [CHR 0x85] @ ''/etc/passwd'')" by code_simp
  have b: "\<not> unc_shape (''hello'' @ [CHR 0x85] @ ''/etc/passwd'')" by code_simp
  have c: "\<not> leading_slash_shape (''hello'' @ [CHR 0x85] @ ''/etc/passwd'')" by code_simp
  have d: "\<not> looks_like_path (''hello'' @ [CHR 0x85] @ ''/etc/passwd'')" by code_simp
  have e: "strip (''hello'' @ [CHR 0x85] @ ''/etc/passwd'') \<noteq> []" by code_simp
  have f: "CHR 0x0D \<notin> set (''hello'' @ [CHR 0x85] @ ''/etc/passwd'')" by code_simp
  have g: "CHR 0x0A \<notin> set (''hello'' @ [CHR 0x85] @ ''/etc/passwd'')" by code_simp
  have h: "parse_paths_and_stat sample_env
             (''hello'' @ [CHR 0x85] @ ''/etc/passwd'' @ [CHR 0x0D, CHR 0x0A])
       = Inr [new_SearchResult ''/etc/passwd'' ''passwd'']" by code_simp
  have i: "parse_paths_and_stat sample_env (''hello /etc/passwd'' @ [CHR 0x0D, CHR 0x0A]) = Inr []"
    by code_simp
  from a b c d e f g h i show ?thesis by blast
qed


text \<open>
  C9, as amended: entry construction is total. For every input string \<open>_stat_to_result\<close>
  returns a SearchResult, never None, and never raises: an \<open>OSError\<close> from the status
  call yields an entry with size -1 and empty timestamps; an \<open>OSError\<close> from formatting
  a timestamp yields an entry that keeps what was assigned before it (the size already
  read, and the modification time when the creation time fails), the rest empty; every
  exception that leaves the body, such as one from the directory test or
  any other class from the status call, yields the minimal path-only entry. So every line
  that passes the blank-line and path-shape filters contributes exactly one entry to the
  batch.
\<close>

theorem stat_to_result_total:
  "(\<exists>r. stat_to_result env fp = Inr (Some r))
   \<and> (\<forall>d e. path_is_dir env fp = Inr d \<and> path_stat env fp = Inl e \<and> is_OSError e \<longrightarrow>
         stat_to_result env fp =
           Inr (Some \<lparr>path = path_str env fp, name = str_or (path_name env fp) fp, is_dir = d,
                      size_bytes = - 1, date_modified = [], date_created = [],
                      extension = (if \<not> d then lower (lstrip_chars ''.'' (path_suffix env fp)) else [])\<rparr>))
   \<and> (\<forall>d st e. path_is_dir env fp = Inr d \<and> path_stat env fp = Inr st
           \<and> format_timestamp env (st_mtime st) = Inl e \<and> is_OSError e \<longrightarrow>
         stat_to_result env fp =
           Inr (Some \<lparr>path = path_str env fp, name = str_or (path_name env fp) fp, is_dir = d,
                      size_bytes = (if \<not> d then st_size st else - 1),
                      date_modified = [], date_created = [],
                      extension = (if \<not> d then lower (lstrip_chars ''.'' (path_suffix env fp)) else [])\<rparr>))
   \<and> (\<forall>d st dm e. path_is_dir env fp = Inr d \<and> path_stat env fp = Inr st
           \<and> format_timestamp env (st_mtime st) = Inr dm
           \<and> format_timestamp env (st_ctime st) = Inl e \<and> is_OSError e \<longrightarrow>
         stat_to_result env fp =
           Inr (Some \<lparr>path = path_str env fp, name = str_or (path_name env fp) fp, is_dir = d,
                      size_bytes = (if \<not> d then st_size st else - 1),
                      date_modified = dm, date_created = [],
                      extension = (if \<not> d then lower (lstrip_chars ''.'' (path_suffix env fp)) else [])\<rparr>))
   \<and> (\<forall>e. stat_to_result_try env fp = Inl e \<longrightarrow>
         stat_to_result env fp = Inr (Some (new_SearchResult fp (str_or (path_name env fp) fp))))
   \<and> (\<forall>e. path_is_dir env fp = Inl e \<or> (path_stat env fp = Inl e \<and> \<not> is_OSError e) \<longrightarrow>
         stat_to_result env fp = Inr (Some (new_SearchResult fp (str_or (path_name env fp) fp))))
   \<and> (\<exists>rs. parse_paths_and_stat env out = Inr rs
          \<and> length rs = length (filter (\<lambda>l. strip l \<noteq> [] \<and> looks_like_path l) (splitlines out)))"
proof (intro conjI allI impI)
  show "\<exists>r. stat_to_result env fp = Inr (Some r)" by (rule stat_to_result_some)
next
  fix d e
  assume "path_is_dir env fp = Inr d \<and> path_stat env fp = Inl e \<and> is_OSError e"
  then show "stat_to_result env fp =
           Inr (Some \<lparr>path = path_str env fp, name = str_or (path_name env fp) fp, is_dir = d,
                      size_bytes = - 1, date_modified = [], date_created = [],
                      extension = (if \<not> d then lower (lstrip_chars ''.'' (path_suffix env fp)) else [])\<rparr>)"
    by (simp add: stat_to_result_def stat_to_result_try_def stat_fields_def Let_def)
next
  fix d st e
  assume "path_is_dir env fp = Inr d \<and> path_stat env fp = Inr st
           \<and> format_timestamp env (st_mtime st) = Inl e \<and> is_OSError e"
  then show "stat_to_result env fp =
           Inr (Some \<lparr>path = path_str env fp, name = str_or (path_name env fp) fp, is_dir = d,
                      size_bytes = (if \<not> d then st_size st else - 1),
                      date_modified = [], date_created = [],
                      extension = (if \<not> d then lower (lstrip_chars ''.'' (path_suffix env fp)) else [])\<rparr>)"
    by (simp add: stat_to_result_def stat_to_result_try_def stat_fields_def Let_def)
next
  fix d st dm e
  assume "path_is_dir env fp = Inr d \<and> path_stat env fp = Inr st
           \<and> format_timestamp env (st_mtime st) = Inr dm
           \<and> format_timestamp env (st_ctime st) = Inl e \<and> is_OSError e"
  then show "stat_to_result env fp =
           Inr (Some \<lparr>path = path_str env fp, name = str_or (path_name env fp) fp, is_dir = d,
                      size_bytes = (if \<not> d then st_size st else - 1),
                      date_modified = dm, date_created = [],
                      extension = (if \<not> d then lower (lstrip_chars ''.'' (path_suffix env fp)) else [])\<rparr>)"
    by (simp add: stat_to_result_def stat_to_result_try_def stat_fields_def Let_def)
next
  fix e
  assume "stat_to_result_try env fp = Inl e"
  then show "stat_to_result env fp = Inr (Some (new_SearchResult fp (str_or (path_name env fp) fp)))"
    by (simp add: stat_to_result_def)
next
  fix e
  assume a: "path_is_dir env fp = Inl e \<or> (path_stat env fp = Inl e \<and> \<not> is_OSError e)"
  have "\<exists>e'. stat_to_result_try env fp = Inl e'"
  proof (cases "path_is_dir env fp")
    case (Inl e')
    then show ?thesis by (simp add: stat_to_result_try_def Let_def)
  next
    case (Inr d)
    with a have "path_stat env fp = Inl e \<and> \<not> is_OSError e" by simp
    with Inr show ?thesis by (simp add: stat_to_result_try_def stat_fields_def Let_def)
  qed
  then show "stat_to_result env fp = Inr (Some (new_SearchResult fp (str_or (path_name env fp) fp)))"
    by (auto simp: stat_to_result_def)
next
  show "\<exists>rs. parse_paths_and_stat env out = Inr rs
          \<and> length rs = length (filter (\<lambda>l. strip l \<noteq> [] \<and> looks_like_path l) (splitlines out))"
    unfolding parse_paths_char by simp
qed

theorem stat_to_result_total_witness:
  "path_is_dir sample_env ''/tmp/a'' = Inr False
   \<and> path_stat sample_env ''/tmp/a'' = Inl FileNotFoundError
   \<and> is_OSError FileNotFoundError
   \<and> stat_to_result sample_env ''/tmp/a'' = Inr (Some (new_SearchResult ''/tmp/a'' ''a''))"
proof -
  have a: "path_is_dir sample_env ''/tmp/a'' = Inr False"
    and b: "path_stat sample_env ''/tmp/a'' = Inl FileNotFoundError"
    and c: "is_OSError FileNotFoundError"
    by (simp_all add: sample_env_def)
  have d: "\<lparr>path = path_str sample_env ''/tmp/a'', name = str_or (path_name sample_env ''/tmp/a'') ''/tmp/a'',
            is_dir = False, size_bytes = - 1, date_modified = [], date_created = [],
            extension = (if \<not> False then lower (lstrip_chars ''.'' (path_suffix sample_env ''/tmp/a'')) else [])\<rparr>
           = new_SearchResult ''/tmp/a'' ''a''"
    by code_simp
  from stat_to_result_total[of sample_env "''/tmp/a''" "[]"] a b c
  have "stat_to_result sample_env ''/tmp/a'' =
      Inr (Some \<lparr>path = path_str sample_env ''/tmp/a'', name = str_or (path_name sample_env ''/tmp/a'') ''/tmp/a'',
            is_dir = False, size_bytes = - 1, date_modified = [], date_created = [],
            extension = (if \<not> False then lower (lstrip_chars ''.'' (path_suffix sample_env ''/tmp/a'')) else [])\<rparr>)"
    by blast
  with d have "stat_to_result sample_env ''/tmp/a'' = Inr (Some (new_SearchResult ''/tmp/a'' ''a''))"
    by simp
  with a b c show ?thesis by blast
qed


text \<open>
  The minimal entry and the entry of size -1 are not the only results of a failure: for a
  file of 5 bytes whose times the platform cannot convert, the entry keeps the size 5.
\<close>

theorem stat_to_result_keeps_size:
  "path_is_dir bad_clock_env ''/f'' = Inr False
   \<and> path_stat bad_clock_env ''/f'' = Inr \<lparr>st_size = 5, st_mtime = - 1, st_ctime = - 1\<rparr>
   \<and> format_timestamp bad_clock_env (- 1) = Inl (OSError ''[Errno 22] Invalid argument'')
   \<and> stat_to_result bad_clock_env ''/f'' =
       Inr (Some \<lparr>path = ''/f'', name = ''f'', is_dir = False, size_bytes = 5,
                  date_modified = [], date_created = [], extension = []\<rparr>)"
proof -
  have a: "path_is_dir bad_clock_env ''/f'' = Inr False"
    and b: "path_stat bad_clock_env ''/f'' = Inr \<lparr>st_size = 5, st_mtime = - 1, st_ctime = - 1\<rparr>"
    and c: "format_timestamp bad_clock_env (- 1) = Inl (OSError ''[Errno 22] Invalid argument'')"
    by (simp_all add: bad_clock_env_def sample_env_def)
  have d: "stat_to_result bad_clock_env ''/f'' =
       Inr (Some \<lparr>path = ''/f'', name = ''f'', is_dir = False, size_bytes = 5,
                  date_modified = [], date_created = [], extension = []\<rparr>)"
    by code_simp
  from a b c d show ?thesis by blast
qed

lemma alpha_not_space: "isalpha c \<Longrightarrow> \<not> isspace c"
  by (auto simp: isalpha_def isspace_def Let_def)

lemma separators_not_space: "\<not> isspace backslash" "\<not> isspace (CHR ''/'')"
  by code_simp+

lemma looks_like_path_first:
  "looks_like_path l \<Longrightarrow> \<exists>c rest. l = c # rest \<and> \<not> isspace c"
  using alpha_not_space separators_not_space
  by (auto simp: looks_like_path_shapes drive_letter_shape_def unc_shape_def
      leading_slash_shape_def split: list.splits)

lemma looks_like_path_nonblank: "looks_like_path l \<Longrightarrow> strip l \<noteq> []"
proof -
  assume "looks_like_path l"
  then obtain c rest where l: "l = c # rest" and c: "\<not> isspace c"
    using looks_like_path_first by blast
  have "lstrip l = l" using l c by (simp add: lstrip_def)
  moreover have "dropWhile isspace (rev l) \<noteq> []"
    using l c by (simp add: dropWhile_eq_Nil_conv)
  ultimately show ?thesis by (simp add: strip_def rstrip_def)
qed

lemma raw_line_whitespace_kept:
  assumes "l \<in> set (splitlines out)" and "looks_like_path l"
  shows "rstrip_chars [CHR 0x0D, CHR 0x0A] l = l
       \<and> (\<exists>rs r. parse_paths_and_stat env out = Inr rs \<and> r \<in> set rs
             \<and> stat_to_result env l = Inr (Some r)
             \<and> (path r = path_str env l \<or> path r = l)
             \<and> name r = str_or (path_name env l) l)"
proof -
  obtain r where r: "stat_to_result env l = Inr (Some r)"
    using stat_to_result_some by blast
  have k: "l \<in> set (filter (\<lambda>fp. strip fp \<noteq> [] \<and> looks_like_path fp) (splitlines out))"
    using assms looks_like_path_nonblank by simp
  have m: "r \<in> set (map (\<lambda>fp. the (projr (stat_to_result env fp)))
            (filter (\<lambda>fp. strip fp \<noteq> [] \<and> looks_like_path fp) (splitlines out)))"
    using k r by force
  have f: "(path r = path_str env l \<or> path r = l) \<and> name r = str_or (path_name env l) l"
    using r
    by (auto simp: stat_to_result_def stat_to_result_try_def new_SearchResult_def Let_def
        split: sum.splits prod.splits)
  show ?thesis
    using rstrip_crlf_line[OF assms(1)] parse_paths_char[of env out] m r f by blast
qed


text \<open>
  C2: a raw stdout line that passes the path-shape check should keep its trailing white
  space in the path and the name of its entry, only carriage returns and newlines being
  trimmed. The loop does hand every line to entry construction untrimmed
  (\<open>raw_line_whitespace_kept\<close>), but \<open>splitlines\<close> has already cut the output at every
  line boundary it knows: for a path that ends in the white-space character NEL (U+0085)
  before the CR LF, the entry's path and name have lost it, while a trailing space is kept.
\<close>

theorem boundary_whitespace_dropped:
  "isspace (CHR 0x85)
   \<and> looks_like_path (''/data/report'' @ [CHR 0x85])
   \<and> parse_paths_and_stat sample_env (''/data/report'' @ [CHR 0x85, CHR 0x0D, CHR 0x0A])
       = Inr [new_SearchResult ''/data/report'' ''report'']
   \<and> parse_paths_and_stat sample_env (''/data/report '' @ [CHR 0x0D, CHR 0x0A])
       = Inr [new_SearchResult ''/data/report '' ''report '']"
proof -
  have a: "isspace (CHR 0x85)" by code_simp
  have b: "looks_like_path (''/data/report'' @ [CHR 0x85])" by code_simp
  have c: "parse_paths_and_stat sample_env (''/data/report'' @ [CHR 0x85, CHR 0x0D, CHR 0x0A])
       = Inr [new_SearchResult ''/data/report'' ''report'']" by code_simp
  have d: "parse_paths_and_stat sample_env (''/data/report '' @ [CHR 0x0D, CHR 0x0A])
       = Inr [new_SearchResult ''/data/report '' ''report '']" by code_simp
  from a b c d show ?thesis by blast
qed

end
